theory Spec2Isabelle
  imports Main "HOL-Library.AList" "HOL-Library.Sublist"
begin

section \<open>The repository scaffolding script \<^verbatim>\<open>scripts/init-missing-repos.ts\<close>\<close>

text \<open>
  The script walks a constant list of repository descriptors. For each one it creates a
  directory, writes template files, runs \<^verbatim>\<open>git\<close> and then \<^verbatim>\<open>gh\<close>; at the end it
  prints a summary. The embedding below keeps the functions of the script under their own
  names. Effects are explicit: a state holds the file system and the ordered trace of
  every operation the script issued, and an environment decides which operations fail.
\<close>

subsection \<open>Strings\<close>

text \<open>
  A string is a list of bytes: ASCII text is written as a literal, every other character
  of the source file as its UTF-8 bytes. The script inspects single characters only in
  repository names and dependency identifiers (\<^verbatim>\<open>split\<close>, \<^verbatim>\<open>charAt\<close>,
  \<^verbatim>\<open>startsWith\<close>), all of which are ASCII in the descriptor list.
\<close>

definition nl :: string where
  "nl = [CHR 0x0A]"

definition dq :: string where
  "dq = [CHR 0x22]"

definition sq :: string where
  "sq = [CHR 0x27]"

text \<open>A template literal whose lines all end with a line feed.\<close>

definition unlines :: "string list \<Rightarrow> string" where
  "unlines ls = concat (map (\<lambda>l. l @ nl) ls)"

text \<open>\<^verbatim>\<open>s.split(sep)\<close> for a one-character separator: the empty string gives \<^verbatim>\<open>['']\<close>.\<close>

fun split :: "char \<Rightarrow> string \<Rightarrow> string list" where
  "split sep [] = [[]]"
| "split sep (c # cs) =
     (if c = sep then [] # split sep cs
      else (case split sep cs of
              [] \<Rightarrow> [[c]]
            | w # ws \<Rightarrow> (c # w) # ws))"

text \<open>\<^verbatim>\<open>s.startsWith(p)\<close>.\<close>

definition startsWith :: "string \<Rightarrow> string \<Rightarrow> bool" where
  "startsWith s p = (take (length p) s = p)"

text \<open>
  \<^verbatim>\<open>toUpperCase\<close> on one character of ASCII text: the lower-case letters map to the
  upper-case ones, every other character is unchanged.
\<close>

definition toUpperCase :: "char \<Rightarrow> char" where
  "toUpperCase c =
     (case map_of (zip ''abcdefghijklmnopqrstuvwxyz'' ''ABCDEFGHIJKLMNOPQRSTUVWXYZ'') c of
        None \<Rightarrow> c
      | Some u \<Rightarrow> u)"

text \<open>
  The arrow function \<^verbatim>\<open>w => w.charAt(0).toUpperCase() + w.slice(1)\<close>: on the empty
  string \<^verbatim>\<open>charAt(0)\<close> and \<^verbatim>\<open>slice(1)\<close> are both empty.
\<close>

definition capitalize :: "string \<Rightarrow> string" where
  "capitalize w = (case w of [] \<Rightarrow> [] | c # cs \<Rightarrow> toUpperCase c # cs)"

subsection \<open>Paths\<close>

text \<open>
  \<^verbatim>\<open>BASE_DIR\<close> is absolute, so every path the script computes is absolute. A path is
  the list of its segments below the root. \<^verbatim>\<open>path.join\<close> normalises what it joins:
  empty and \<^verbatim>\<open>.\<close> segments vanish, \<^verbatim>\<open>..\<close> removes the segment before it (and is
  dropped at the root).
\<close>

type_synonym path = "string list"

definition path_step :: "path \<Rightarrow> string \<Rightarrow> path" where
  "path_step p seg =
     (if seg = [] \<or> seg = ''.'' then p
      else if seg = ''..'' then butlast p
      else p @ [seg])"

definition path_join :: "path \<Rightarrow> string \<Rightarrow> path" where
  "path_join p s = foldl path_step p (split CHR ''/'' s)"

definition BASE_DIR :: path where
  "BASE_DIR = [''Users'', ''andrewpankov'', ''Documents'', ''GitHub'', ''cloudflare-studio'']"

subsection \<open>Descriptors\<close>

datatype repo_type = Library | App | Plugin | Docs | Config

record RepoConfig =
  name :: string
  description :: string
  isPrivate :: bool
  type :: repo_type
  dependencies :: "string list option"

definition REPOS_TO_CREATE :: "RepoConfig list" where
  "REPOS_TO_CREATE =
    [\<lparr>name = ''claude-docs'',
      description = [CHR 0xF0, CHR 0x9F, CHR 0xA4, CHR 0x96] @
        '' AI-first documentation system for Cloudflare Studio'',
      isPrivate = False, type = Library, dependencies = None\<rparr>,
     \<lparr>name = ''.claude'',
      description = [CHR 0xF0, CHR 0x9F, CHR 0xA7, CHR 0xA0] @
        '' Organization AI brain - Multi-repo Claude context management'',
      isPrivate = False, type = Docs, dependencies = None\<rparr>,
     \<lparr>name = ''billing'',
      description = [CHR 0xF0, CHR 0x9F, CHR 0x92, CHR 0xB3] @
        '' Billing system with Stripe integration'',
      isPrivate = True, type = App,
      dependencies = Some [''stripe'', ''@cloudflare-studio/runtime'']\<rparr>,
     \<lparr>name = ''analytics'',
      description = [CHR 0xF0, CHR 0x9F, CHR 0x93, CHR 0x8A] @
        '' Usage analytics and metrics tracking'',
      isPrivate = True, type = App,
      dependencies = Some [''@cloudflare/workers-types'']\<rparr>,
     \<lparr>name = ''plugin-ai'',
      description = [CHR 0xF0, CHR 0x9F, CHR 0xA4, CHR 0x96] @
        '' AI-powered automation plugin ($99/month)'',
      isPrivate = True, type = Plugin,
      dependencies = Some [''@cloudflare-studio/plugin-interface'', ''openai'']\<rparr>,
     \<lparr>name = ''plugin-enterprise'',
      description = [CHR 0xF0, CHR 0x9F, CHR 0x8F, CHR 0xA2] @
        '' Enterprise features plugin (custom pricing)'',
      isPrivate = True, type = Plugin,
      dependencies = Some [''@cloudflare-studio/plugin-interface'']\<rparr>,
     \<lparr>name = ''infrastructure'',
      description = [CHR 0xF0, CHR 0x9F, CHR 0x8F, CHR 0x97, CHR 0xEF, CHR 0xB8, CHR 0x8F] @
        '' Our own infrastructure managed by cfstudio'',
      isPrivate = True, type = Config, dependencies = None\<rparr>,
     \<lparr>name = ''runbooks'',
      description = [CHR 0xF0, CHR 0x9F, CHR 0x93, CHR 0x9A] @
        '' Operational runbooks and workflows'',
      isPrivate = True, type = Config, dependencies = None\<rparr>,
     \<lparr>name = ''monitoring'',
      description = [CHR 0xF0, CHR 0x9F, CHR 0x93, CHR 0xA1] @
        '' Monitoring and alerting configuration'',
      isPrivate = True, type = App,
      dependencies = Some [''@cloudflare/workers-types'']\<rparr>]"

subsection \<open>Effects, state and failure\<close>

text \<open>
  The operations the script issues, in the order it issues them; the trace records an
  operation whether it succeeds or fails. A file system node is a directory or a file with
  its text. The environment says which operations fail; a failed \<^verbatim>\<open>mkdir\<close> or
  \<^verbatim>\<open>writeFile\<close> leaves the file system as it was. What the child processes do to the
  disk is outside the model: \<^verbatim>\<open>files\<close> holds what the script itself created.
\<close>

datatype effect =
    Mkdir path
  | WriteFile path string
  | ExecSync string path
  | ConsoleLog string
  | ConsoleError string

datatype node = Directory | File string

record state =
  files :: "path \<rightharpoonup> node"
  trace :: "effect list"

type_synonym env = "effect \<Rightarrow> bool"

text \<open>A call returns, or throws; the exception carries the operation that failed.\<close>

datatype outcome = Returned | Threw effect

type_synonym prog = "state \<Rightarrow> outcome \<times> state"

definition emit :: "effect \<Rightarrow> state \<Rightarrow> state" where
  "emit e s = s\<lparr>trace := trace s @ [e]\<rparr>"

text \<open>Statements in sequence: the first one that throws ends the block.\<close>

fun block :: "prog list \<Rightarrow> prog" where
  "block [] s = (Returned, s)"
| "block (f # fs) s =
     (case f s of
        (Returned, s') \<Rightarrow> block fs s'
      | (Threw e, s') \<Rightarrow> (Threw e, s'))"

text \<open>\<^verbatim>\<open>try { body } catch (error) { handler }\<close>.\<close>

definition try_catch :: "prog \<Rightarrow> (effect \<Rightarrow> prog) \<Rightarrow> prog" where
  "try_catch body handler s =
     (case body s of
        (Returned, s') \<Rightarrow> (Returned, s')
      | (Threw e, s') \<Rightarrow> handler e s')"

definition throw :: "effect \<Rightarrow> prog" where
  "throw e s = (Threw e, s)"

definition console_log :: "string \<Rightarrow> prog" where
  "console_log l s = (Returned, emit (ConsoleLog l) s)"

definition console_error :: "string \<Rightarrow> prog" where
  "console_error l s = (Returned, emit (ConsoleError l) s)"

text \<open>\<^verbatim>\<open>fs.access(p)\<close> resolves when something exists at \<open>p\<close>; the root always exists.\<close>

definition fs_access :: "state \<Rightarrow> path \<Rightarrow> bool" where
  "fs_access s p = (p = [] \<or> files s p \<noteq> None)"

text \<open>\<^verbatim>\<open>fs.mkdir(p, { recursive: true })\<close> also creates the missing parents.\<close>

fun ancestors :: "path \<Rightarrow> path list" where
  "ancestors [] = []"
| "ancestors (seg # p) = [seg] # map ((#) seg) (ancestors p)"

definition make_dirs :: "path \<Rightarrow> (path \<rightharpoonup> node) \<Rightarrow> (path \<rightharpoonup> node)" where
  "make_dirs p m = fold (\<lambda>q m'. if m' q = None then m'(q \<mapsto> Directory) else m') (ancestors p) m"

definition fs_mkdir :: "env \<Rightarrow> path \<Rightarrow> prog" where
  "fs_mkdir env p s =
     (if env (Mkdir p) then (Threw (Mkdir p), emit (Mkdir p) s)
      else (Returned, emit (Mkdir p) (s\<lparr>files := make_dirs p (files s)\<rparr>)))"

definition fs_writeFile :: "env \<Rightarrow> path \<Rightarrow> string \<Rightarrow> prog" where
  "fs_writeFile env p text s =
     (if env (WriteFile p text) then (Threw (WriteFile p text), emit (WriteFile p text) s)
      else (Returned, emit (WriteFile p text) (s\<lparr>files := (files s)(p \<mapsto> File text)\<rparr>)))"

definition execSync :: "env \<Rightarrow> string \<Rightarrow> path \<Rightarrow> prog" where
  "execSync env cmd cwd s =
     (if env (ExecSync cmd cwd) then (Threw (ExecSync cmd cwd), emit (ExecSync cmd cwd) s)
      else (Returned, emit (ExecSync cmd cwd) s))"

definition runCommand :: "env \<Rightarrow> string \<Rightarrow> path \<Rightarrow> prog" where
  "runCommand env cmd cwd =
     block
      [console_log (''  $ '' @ cmd),
       try_catch (execSync env cmd cwd)
         (\<lambda>error. block
            [console_error (''  '' @ [CHR 0xE2, CHR 0x9D, CHR 0x8C] @ '' Command failed: '' @ cmd),
             throw error])]"

subsection \<open>JSON\<close>

text \<open>
  The values the script serialises, and \<^verbatim>\<open>JSON.stringify(value, null, 2)\<close> on them.
  An object is the list of its properties in insertion order; property names are taken to
  be ordinary names (neither array indices, which JavaScript would list first, nor
  \<^verbatim>\<open>__proto__\<close>).
\<close>

datatype json =
    JString string
  | JBool bool
  | JArray "json list"
  | JObject "(string \<times> json) list"

definition hex_digit :: "nat \<Rightarrow> char" where
  "hex_digit n = ''0123456789abcdef'' ! n"

definition escape_char :: "char \<Rightarrow> string" where
  "escape_char c =
     (if c = CHR 0x22 then [CHR 0x5C, CHR 0x22]
      else if c = CHR 0x5C then [CHR 0x5C, CHR 0x5C]
      else if c = CHR 0x08 then [CHR 0x5C, CHR ''b'']
      else if c = CHR 0x09 then [CHR 0x5C, CHR ''t'']
      else if c = CHR 0x0A then [CHR 0x5C, CHR ''n'']
      else if c = CHR 0x0C then [CHR 0x5C, CHR ''f'']
      else if c = CHR 0x0D then [CHR 0x5C, CHR ''r'']
      else if (of_char c :: nat) < 32
        then [CHR 0x5C] @ ''u00'' @
             [hex_digit ((of_char c :: nat) div 16), hex_digit ((of_char c :: nat) mod 16)]
      else [c])"

definition quote :: "string \<Rightarrow> string" where
  "quote s = dq @ concat (map escape_char s) @ dq"

fun intercalate :: "'a list \<Rightarrow> 'a list list \<Rightarrow> 'a list" where
  "intercalate sep [] = []"
| "intercalate sep [x] = x"
| "intercalate sep (x # y # ys) = x @ sep @ intercalate sep (y # ys)"

definition spaces :: "nat \<Rightarrow> string" where
  "spaces n = replicate n CHR '' ''"

fun stringify :: "nat \<Rightarrow> json \<Rightarrow> string" where
  "stringify ind (JString s) = quote s"
| "stringify ind (JBool b) = (if b then ''true'' else ''false'')"
| "stringify ind (JArray xs) =
     (if xs = [] then ''[]''
      else ''['' @ nl @
           intercalate ('','' @ nl)
             (map (\<lambda>x. spaces (ind + 2) @ stringify (ind + 2) x) xs) @
           nl @ spaces ind @ '']'')"
| "stringify ind (JObject kvs) =
     (if kvs = [] then ''{}''
      else ''{'' @ nl @
           intercalate ('','' @ nl)
             (map (\<lambda>(k, v). spaces (ind + 2) @ quote k @ '': '' @ stringify (ind + 2) v) kvs) @
           nl @ spaces ind @ ''}'')"

definition JSON_stringify :: "json \<Rightarrow> string" where
  "JSON_stringify j = stringify 0 j"

subsection \<open>The manifest and the compiler configuration\<close>

text \<open>
  The \<^verbatim>\<open>reduce\<close> over the dependency list: \<^verbatim>\<open>acc[dep] = ...\<close> adds the property at the
  end, or replaces its value where it already is.
\<close>

definition dependency_map :: "string list \<Rightarrow> (string \<times> string) list" where
  "dependency_map deps =
     foldl (\<lambda>acc dep.
              AList.update dep
                (if startsWith dep ''@cloudflare-studio/'' then ''workspace:*'' else ''latest'')
                acc)
       [] deps"

definition packageJson :: "RepoConfig \<Rightarrow> json" where
  "packageJson config =
     JObject
      ([(''name'', JString (''@cloudflare-studio/'' @ name config)),
        (''version'', JString ''0.1.0''),
        (''description'', JString (description config)),
        (''type'', JString ''module'')] @
       (if type config \<noteq> Config then
          [(''main'', JString ''dist/index.js''),
           (''types'', JString ''dist/index.d.ts''),
           (''scripts'', JObject
              [(''dev'', JString ''tsx watch src/index.ts''),
               (''build'', JString ''tsup src/index.ts --format esm''),
               (''typecheck'', JString ''tsc --noEmit''),
               (''test'', JString ''vitest run''),
               (''test:watch'', JString ''vitest'')])]
        else []) @
       (if type config = Config then
          [(''scripts'', JObject
              [(''validate'', JString ''cfstudio validate''),
               (''deploy'', JString ''cfstudio deploy'')])]
        else []) @
       [(''repository'', JObject
           [(''type'', JString ''git''),
            (''url'', JString (''git+https://github.com/cloudflare-studio/'' @ name config @ ''.git''))]),
        (''homepage'', JString (''https://github.com/cloudflare-studio/'' @ name config @ ''#readme'')),
        (''private'', JBool (isPrivate config))] @
       (case dependencies config of
          None \<Rightarrow> []
        | Some deps \<Rightarrow>
            [(''dependencies'', JObject (map (\<lambda>(dep, v). (dep, JString v)) (dependency_map deps)))]) @
       [(''devDependencies'', JObject
           [(''@types/node'', JString ''^20.0.0''),
            (''tsx'', JString ''^4.0.0''),
            (''tsup'', JString ''^8.0.0''),
            (''typescript'', JString ''^5.0.0''),
            (''vitest'', JString ''^1.0.0'')])])"

definition createPackageJson :: "env \<Rightarrow> path \<Rightarrow> RepoConfig \<Rightarrow> prog" where
  "createPackageJson env repoPath config =
     fs_writeFile env (path_join repoPath ''package.json'')
       (JSON_stringify (packageJson config) @ nl)"

definition tsconfig :: json where
  "tsconfig =
     JObject
      [(''compilerOptions'', JObject
          [(''target'', JString ''ES2022''),
           (''module'', JString ''ESNext''),
           (''lib'', JArray [JString ''ES2022'']),
           (''moduleResolution'', JString ''bundler''),
           (''esModuleInterop'', JBool True),
           (''skipLibCheck'', JBool True),
           (''strict'', JBool True),
           (''outDir'', JString ''dist''),
           (''rootDir'', JString ''src''),
           (''declaration'', JBool True),
           (''declarationMap'', JBool True),
           (''sourceMap'', JBool True)]),
       (''include'', JArray [JString ''src/**/*'']),
       (''exclude'', JArray [JString ''node_modules'', JString ''dist''])]"

definition createTsConfig :: "env \<Rightarrow> path \<Rightarrow> prog" where
  "createTsConfig env repoPath =
     fs_writeFile env (path_join repoPath ''tsconfig.json'') (JSON_stringify tsconfig @ nl)"

subsection \<open>The generated files\<close>

text \<open>The template \<^verbatim>\<open>pluginCode\<close> of \<^verbatim>\<open>createSourceFiles\<close>.\<close>

definition pluginCode :: "RepoConfig \<Rightarrow> string" where
  "pluginCode config =
     unlines
       [''import { Plugin, PluginCapabilities } from '' @ sq @ ''@cloudflare-studio/plugin-interface'' @ sq,
        '''',
        ''export class '' @ concat (map capitalize (split CHR ''-'' (name config))) @ ''Plugin implements Plugin {'',
        ''  name = '' @ sq @ name config @ sq,
        ''  version = '' @ sq @ ''0.1.0'' @ sq,
        ''  '',
        ''  capabilities: PluginCapabilities = {'',
        ''    resources: ['',
        ''      // Define resource types this plugin manages'',
        ''    ],'',
        ''    actions: ['',
        ''      // Define actions this plugin provides'',
        ''    ]'',
        ''  }'',
        ''  '',
        ''  async initialize() {'',
        ''    console.log('' @ sq @ name config @ '' plugin initialized'' @ sq @ '')'',
        ''  }'',
        ''  '',
        ''  async execute(action: string, inputs: any) {'',
        ''    console.log(`Executing ${action} with inputs:`, inputs)'',
        ''    return { success: true }'',
        ''  }'',
        ''}'',
        '''',
        ''export default new '' @ concat (map capitalize (split CHR ''-'' (name config))) @ ''Plugin()'']"

text \<open>The template \<^verbatim>\<open>appCode\<close> of \<^verbatim>\<open>createSourceFiles\<close>.\<close>

definition appCode :: "RepoConfig \<Rightarrow> string" where
  "appCode config =
     unlines
       [''/**'',
        '' * '' @ description config,
        '' */'',
        '''',
        ''export async function main() {'',
        ''  console.log('' @ sq @ name config @ '' starting...'' @ sq @ '')'',
        ''  '',
        ''  // TODO: Implement '' @ name config @ '' logic'',
        ''}'',
        '''',
        ''// Run if called directly'',
        ''if (import.meta.url === `file://${process.argv[1]}`) {'',
        ''  main().catch(console.error)'',
        ''}'']"

text \<open>The template \<^verbatim>\<open>libCode\<close> of \<^verbatim>\<open>createSourceFiles\<close>.\<close>

definition libCode :: "RepoConfig \<Rightarrow> string" where
  "libCode config =
     unlines
       [''/**'',
        '' * '' @ description config,
        '' */'',
        '''',
        ''export const version = '' @ sq @ ''0.1.0'' @ sq,
        '''',
        ''export function hello() {'',
        ''  return '' @ sq @ ''Hello from '' @ name config @ ''!'' @ sq,
        ''}'',
        '''',
        ''// TODO: Implement '' @ name config @ '' functionality'']"

text \<open>The template \<^verbatim>\<open>cfstudioYaml\<close> of \<^verbatim>\<open>createConfigFiles\<close>.\<close>

definition cfstudioYaml :: "RepoConfig \<Rightarrow> string" where
  "cfstudioYaml config =
     unlines
       [''project:'',
        ''  name: '' @ name config,
        ''  version: 0.1.0'',
        ''  description: '' @ description config,
        '''',
        ''plugins:'',
        ''  - name: '' @ sq @ ''@cloudflare-studio/plugin-cloudflare'' @ sq,
        ''  - name: '' @ sq @ ''@cloudflare-studio/plugin-github'' @ sq,
        '''',
        ''resources:'',
        ''  # Define resources managed by this project'',
        '''',
        ''workflows:'',
        ''  # Define automation workflows'']"

text \<open>The template \<^verbatim>\<open>readme\<close> of \<^verbatim>\<open>createConfigFiles\<close>: the usage README.\<close>

definition usage_readme :: "RepoConfig \<Rightarrow> string" where
  "usage_readme config =
     unlines
       [''# '' @ name config,
        '''',
        description config,
        '''',
        ''## Usage'',
        '''',
        ''```bash'',
        ''cfstudio validate'',
        ''cfstudio deploy'',
        ''```'']"

text \<open>The template \<^verbatim>\<open>gitignore\<close> of \<^verbatim>\<open>createGitignore\<close>.\<close>

definition gitignore :: "string" where
  "gitignore =
     unlines
       [''# Dependencies'',
        ''node_modules/'',
        ''dist/'',
        ''*.log'',
        '''',
        ''# Environment'',
        ''.env'',
        ''.env.local'',
        ''.env.*.local'',
        '''',
        ''# IDE'',
        ''.vscode/'',
        ''.idea/'',
        '''',
        ''# OS'',
        ''.DS_Store'',
        ''Thumbs.db'',
        '''',
        ''# Build'',
        ''*.tsbuildinfo'',
        ''coverage/'',
        ''.turbo/'',
        '''',
        ''# Private'',
        ''*.private'',
        ''*.secret'']"

text \<open>The template \<^verbatim>\<open>ciWorkflow\<close> of \<^verbatim>\<open>createGitHubActions\<close>.\<close>

definition ciWorkflow :: "RepoConfig \<Rightarrow> string" where
  "ciWorkflow config =
     unlines
       [''name: CI'',
        '''',
        ''on:'',
        ''  push:'',
        ''    branches: [main]'',
        ''  pull_request:'',
        ''    branches: [main]'',
        '''',
        ''jobs:'',
        ''  test:'',
        ''    runs-on: ubuntu-latest'',
        ''    '',
        ''    steps:'',
        ''      - uses: actions/checkout@v4'',
        ''      '',
        ''      - uses: pnpm/action-setup@v2'',
        ''        with:'',
        ''          version: 8'',
        ''          '',
        ''      - uses: actions/setup-node@v4'',
        ''        with:'',
        ''          node-version: 20'',
        ''          cache: '' @ sq @ ''pnpm'' @ sq,
        ''          '',
        ''      - name: Install dependencies'',
        ''        run: pnpm install'',
        ''        '',
        ''      '' @
        (if type config \<noteq> Config then
           ''- name: Type check'' @ nl @
           ''        run: pnpm typecheck'' @ nl @
           ''        '' @ nl @
           ''      - name: Run tests'' @ nl @
           ''        run: pnpm test'' @ nl @
           ''        '' @ nl @
           ''      - name: Build'' @ nl @
           ''        run: pnpm build''
         else
           ''- name: Validate'' @ nl @
           ''        run: pnpm validate'')]"

text \<open>The template \<^verbatim>\<open>readme\<close> of \<^verbatim>\<open>createReadme\<close>: the general README.\<close>

definition readme :: "RepoConfig \<Rightarrow> string" where
  "readme config =
     unlines
       [''# '' @ name config,
        '''',
        description config,
        '''',
        (if isPrivate config then
           ''**'' @ [CHR 0xE2, CHR 0x9A, CHR 0xA0, CHR 0xEF, CHR 0xB8, CHR 0x8F] @
           '' This is a private repository for Cloudflare Studio internal use only.**'' @ nl
         else ''''),
        ''## Overview'',
        '''',
        (if type config = Plugin then
           ''This is a '' @ (if isPrivate config then ''premium'' else ''standard'') @
           '' plugin for Cloudflare Studio.''
         else ''''),
        (if type config = App then
           ''This application is part of the Cloudflare Studio platform.''
         else ''''),
        (if type config = Library then
           ''This library provides shared functionality for Cloudflare Studio.''
         else ''''),
        (if type config = Config then
           ''This repository contains configuration and workflows for Cloudflare Studio operations.''
         else ''''),
        '''',
        ''## Installation'',
        '''',
        (if type config \<noteq> Config then
           ''```bash'' @ nl @
           ''pnpm add '' @ name config @ nl @
           ''```''
         else
           ''```bash'' @ nl @
           ''cfstudio validate'' @ nl @
           ''```''),
        '''',
        ''## Usage'',
        '''',
        (if type config = Plugin then
           ''```typescript'' @ nl @
           ''import '' @ concat (map capitalize (split CHR ''-'' (name config))) @
             '' from '' @ sq @ name config @ sq @ nl @
           nl @
           ''// Use in your cfstudio.yaml'' @ nl @
           ''plugins:'' @ nl @
           ''  - name: '' @ sq @ name config @ sq @ nl @
           ''```''
         else ''''),
        '''',
        (if type config = App then
           ''```bash'' @ nl @
           ''pnpm dev  # Development'' @ nl @
           ''pnpm build # Production build'' @ nl @
           ''```''
         else ''''),
        '''',
        ''## Development'',
        '''',
        ''```bash'',
        ''# Install dependencies'',
        ''pnpm install'',
        '''',
        (if type config \<noteq> Config then
           ''# Run tests'' @ nl @
           ''pnpm test'' @ nl @
           nl @
           ''# Build'' @ nl @
           ''pnpm build''
         else
           ''# Validate configuration'' @ nl @
           ''pnpm validate''),
        ''```'',
        '''',
        ''## License'',
        '''',
        (if isPrivate config then ''Proprietary - Cloudflare Studio Internal'' else ''MIT'')]"

definition createSourceFiles :: "env \<Rightarrow> path \<Rightarrow> RepoConfig \<Rightarrow> prog" where
  "createSourceFiles env repoPath config =
     (let srcDir = path_join repoPath ''src'' in
      block
       [fs_mkdir env srcDir,
        (if type config = Plugin then
           fs_writeFile env (path_join srcDir ''index.ts'') (pluginCode config)
         else if type config = App then
           fs_writeFile env (path_join srcDir ''index.ts'') (appCode config)
         else if type config = Library then
           fs_writeFile env (path_join srcDir ''index.ts'') (libCode config)
         else block [])])"

definition createConfigFiles :: "env \<Rightarrow> path \<Rightarrow> RepoConfig \<Rightarrow> prog" where
  "createConfigFiles env repoPath config =
     (if type config = Config then
        block
         [fs_writeFile env (path_join repoPath ''cfstudio.yaml'') (cfstudioYaml config),
          fs_writeFile env (path_join repoPath ''README.md'') (usage_readme config)]
      else block [])"

definition createGitignore :: "env \<Rightarrow> path \<Rightarrow> prog" where
  "createGitignore env repoPath =
     fs_writeFile env (path_join repoPath ''.gitignore'') gitignore"

definition createGitHubActions :: "env \<Rightarrow> path \<Rightarrow> RepoConfig \<Rightarrow> prog" where
  "createGitHubActions env repoPath config =
     (let workflowsDir = path_join (path_join repoPath ''.github'') ''workflows'' in
      block
       [fs_mkdir env workflowsDir,
        fs_writeFile env (path_join workflowsDir ''ci.yml'') (ciWorkflow config)])"

definition createReadme :: "env \<Rightarrow> path \<Rightarrow> RepoConfig \<Rightarrow> prog" where
  "createReadme env repoPath config =
     fs_writeFile env (path_join repoPath ''README.md'') (readme config)"

subsection \<open>Processing one descriptor, and the whole list\<close>

text \<open>
  \<^verbatim>\<open>initializeRepo\<close> returns early when \<^verbatim>\<open>fs.access\<close> resolves; only the \<^verbatim>\<open>gh\<close>
  call is wrapped in a \<^verbatim>\<open>try\<close>. \<^verbatim>\<open>main\<close> is the loop over the constant list followed by
  the summary; the \<^verbatim>\<open>catch(console.error)\<close> that the last line of the script attaches to
  the call of \<^verbatim>\<open>main\<close> is not part of it.
\<close>

definition initializeRepo :: "env \<Rightarrow> RepoConfig \<Rightarrow> prog" where
  "initializeRepo env config =
     (let repoPath = path_join BASE_DIR (name config) in
      block
       [console_log (nl @ [CHR 0xF0, CHR 0x9F, CHR 0x93, CHR 0xA6] @ '' Creating '' @ name config @ ''...''),
        (\<lambda>s.
          if fs_access s repoPath then
            console_log (''  '' @ [CHR 0xE2, CHR 0x9A, CHR 0xA0, CHR 0xEF, CHR 0xB8, CHR 0x8F] @
                         ''  Directory already exists, skipping...'') s
          else
            block
             [fs_mkdir env repoPath,
              runCommand env ''git init'' repoPath,
              (if type config \<noteq> Config then
                 block
                  [createPackageJson env repoPath config,
                   createTsConfig env repoPath,
                   createSourceFiles env repoPath config]
               else createConfigFiles env repoPath config),
              createGitignore env repoPath,
              createGitHubActions env repoPath config,
              createReadme env repoPath config,
              runCommand env ''git add .'' repoPath,
              runCommand env
                (''git commit -m '' @ dq @ ''feat: initial setup for '' @ name config @ nl @ nl @
                 description config @ dq)
                repoPath,
              (let visibility = (if isPrivate config then ''--private'' else ''--public'') in
               try_catch
                (block
                  [runCommand env
                     (''gh repo create cloudflare-studio/'' @ name config @ '' '' @ visibility @
                      '' --description '' @ dq @ description config @ dq @ '' --push --source .'')
                     repoPath,
                   console_log (''  '' @ [CHR 0xE2, CHR 0x9C, CHR 0x85] @ '' Created and pushed to GitHub'')])
                (\<lambda>error.
                   console_log (''  '' @ [CHR 0xE2, CHR 0x9A, CHR 0xA0, CHR 0xEF, CHR 0xB8, CHR 0x8F] @
                                ''  Could not create GitHub repo (may already exist)'')))] s)])"

definition main :: "env \<Rightarrow> prog" where
  "main env =
     block
      ([console_log ([CHR 0xF0, CHR 0x9F, CHR 0x9A, CHR 0x80] @
                     '' Initializing missing Cloudflare Studio repositories...'' @ nl)] @
       map (\<lambda>repo. initializeRepo env repo) REPOS_TO_CREATE @
       [console_log (nl @ [CHR 0xE2, CHR 0x9C, CHR 0xA8] @ '' All repositories initialized!''),
        console_log (nl @ [CHR 0xF0, CHR 0x9F, CHR 0x93, CHR 0x8A] @ '' Repository Summary:''),
        console_log (nl @ ''Public (Open Source):'')] @
       map (\<lambda>r. console_log (''  - '' @ name r @ '': '' @ description r))
         (filter (\<lambda>r. \<not> isPrivate r) REPOS_TO_CREATE) @
       [console_log (nl @ ''Private (Business):'')] @
       map (\<lambda>r. console_log (''  - '' @ name r @ '': '' @ description r))
         (filter (\<lambda>r. isPrivate r) REPOS_TO_CREATE))"

section \<open>The script as a straight-line run\<close>

text \<open>
  The definitions of this section translate no function of the script. They describe its
  runs: which operations a call issues and in which state it ends. The lemmas of the next
  section prove that the functions above behave as these definitions say, and the claims
  are then settled on the functions.
\<close>

text \<open>The operations that can fail: everything but console output.\<close>

definition fallible :: "effect \<Rightarrow> bool" where
  "fallible e = (case e of ConsoleLog _ \<Rightarrow> False | ConsoleError _ \<Rightarrow> False | _ \<Rightarrow> True)"

text \<open>The state after an operation that succeeded, and after one that failed.\<close>

definition perform :: "effect \<Rightarrow> state \<Rightarrow> state" where
  "perform e s =
     emit e
      (case e of
         Mkdir p \<Rightarrow> s\<lparr>files := make_dirs p (files s)\<rparr>
       | WriteFile p text \<Rightarrow> s\<lparr>files := (files s)(p \<mapsto> File text)\<rparr>
       | _ \<Rightarrow> s)"

definition failed :: "effect \<Rightarrow> state \<Rightarrow> state" where
  "failed e s =
     (case e of
        ExecSync cmd cwd \<Rightarrow>
          emit (ConsoleError (''  '' @ [CHR 0xE2, CHR 0x9D, CHR 0x8C] @ '' Command failed: '' @ cmd))
            (emit e s)
      | _ \<Rightarrow> emit e s)"

text \<open>
  Running a list of operations in order, up to the first one that fails. Every function of
  the script except the guarded \<^verbatim>\<open>gh\<close> call is shown below to be such a run.
\<close>

fun exec :: "env \<Rightarrow> effect list \<Rightarrow> prog" where
  "exec env [] s = (Returned, s)"
| "exec env (e # es) s =
     (if fallible e \<and> env e then (Threw e, failed e s) else exec env es (perform e s))"

text \<open>What \<^verbatim>\<open>runCommand\<close> issues: the echo of the command, then the command.\<close>

definition run_command :: "string \<Rightarrow> path \<Rightarrow> effect list" where
  "run_command cmd cwd = [ConsoleLog (''  $ '' @ cmd), ExecSync cmd cwd]"

text \<open>The target path of a descriptor, and the two command lines built from it.\<close>

definition repoPath :: "RepoConfig \<Rightarrow> path" where
  "repoPath config = path_join BASE_DIR (name config)"

definition commit_command :: "RepoConfig \<Rightarrow> string" where
  "commit_command config =
     ''git commit -m '' @ dq @ ''feat: initial setup for '' @ name config @ nl @ nl @
     description config @ dq"

definition gh_command :: "RepoConfig \<Rightarrow> string" where
  "gh_command config =
     ''gh repo create cloudflare-studio/'' @ name config @ '' '' @
     (if isPrivate config then ''--private'' else ''--public'') @
     '' --description '' @ dq @ description config @ dq @ '' --push --source .''"

text \<open>The console lines of \<^verbatim>\<open>initializeRepo\<close>.\<close>

definition creating_notice :: "RepoConfig \<Rightarrow> string" where
  "creating_notice config =
     nl @ [CHR 0xF0, CHR 0x9F, CHR 0x93, CHR 0xA6] @ '' Creating '' @ name config @ ''...''"

definition skip_notice :: string where
  "skip_notice =
     ''  '' @ [CHR 0xE2, CHR 0x9A, CHR 0xA0, CHR 0xEF, CHR 0xB8, CHR 0x8F] @
     ''  Directory already exists, skipping...''"

definition pushed_notice :: string where
  "pushed_notice = ''  '' @ [CHR 0xE2, CHR 0x9C, CHR 0x85] @ '' Created and pushed to GitHub''"

definition warning_notice :: string where
  "warning_notice =
     ''  '' @ [CHR 0xE2, CHR 0x9A, CHR 0xA0, CHR 0xEF, CHR 0xB8, CHR 0x8F] @
     ''  Could not create GitHub repo (may already exist)''"

text \<open>
  The operations \<^verbatim>\<open>initializeRepo\<close> issues for a target that does not exist yet, from
  the creation of the directory to the commit.
\<close>

definition plan :: "RepoConfig \<Rightarrow> effect list" where
  "plan config =
     [Mkdir (repoPath config)] @
     run_command ''git init'' (repoPath config) @
     (if type config \<noteq> Config then
        [WriteFile (path_join (repoPath config) ''package.json'')
           (JSON_stringify (packageJson config) @ nl),
         WriteFile (path_join (repoPath config) ''tsconfig.json'') (JSON_stringify tsconfig @ nl),
         Mkdir (path_join (repoPath config) ''src'')] @
        (if type config = Plugin then
           [WriteFile (path_join (path_join (repoPath config) ''src'') ''index.ts'') (pluginCode config)]
         else if type config = App then
           [WriteFile (path_join (path_join (repoPath config) ''src'') ''index.ts'') (appCode config)]
         else if type config = Library then
           [WriteFile (path_join (path_join (repoPath config) ''src'') ''index.ts'') (libCode config)]
         else [])
      else
        [WriteFile (path_join (repoPath config) ''cfstudio.yaml'') (cfstudioYaml config),
         WriteFile (path_join (repoPath config) ''README.md'') (usage_readme config)]) @
     [WriteFile (path_join (repoPath config) ''.gitignore'') gitignore,
      Mkdir (path_join (path_join (repoPath config) ''.github'') ''workflows''),
      WriteFile (path_join (path_join (path_join (repoPath config) ''.github'') ''workflows'') ''ci.yml'')
        (ciWorkflow config),
      WriteFile (path_join (repoPath config) ''README.md'') (readme config)] @
     run_command ''git add .'' (repoPath config) @
     run_command (commit_command config) (repoPath config)"

text \<open>The guarded \<^verbatim>\<open>gh\<close> call: the state after it, and what it issues.\<close>

definition publish :: "env \<Rightarrow> RepoConfig \<Rightarrow> state \<Rightarrow> state" where
  "publish env config s =
     (if env (ExecSync (gh_command config) (repoPath config))
      then perform (ConsoleLog warning_notice)
             (failed (ExecSync (gh_command config) (repoPath config))
               (perform (ConsoleLog (''  $ '' @ gh_command config)) s))
      else perform (ConsoleLog pushed_notice)
             (perform (ExecSync (gh_command config) (repoPath config))
               (perform (ConsoleLog (''  $ '' @ gh_command config)) s)))"

definition publish_effects :: "env \<Rightarrow> RepoConfig \<Rightarrow> effect list" where
  "publish_effects env config =
     run_command (gh_command config) (repoPath config) @
     (if env (ExecSync (gh_command config) (repoPath config))
      then [ConsoleError (''  '' @ [CHR 0xE2, CHR 0x9D, CHR 0x8C] @ '' Command failed: '' @ gh_command config),
            ConsoleLog warning_notice]
      else [ConsoleLog pushed_notice])"

text \<open>The operations issued between two states, the files written and the commands run.\<close>

definition issued :: "state \<Rightarrow> state \<Rightarrow> effect list" where
  "issued s s' = drop (length (trace s)) (trace s')"

definition written :: "effect list \<Rightarrow> (path \<times> string) list" where
  "written evs = concat (map (\<lambda>e. case e of WriteFile p text \<Rightarrow> [(p, text)] | _ \<Rightarrow> []) evs)"

definition commands :: "effect list \<Rightarrow> (string \<times> path) list" where
  "commands evs = concat (map (\<lambda>e. case e of ExecSync cmd cwd \<Rightarrow> [(cmd, cwd)] | _ \<Rightarrow> []) evs)"

text \<open>A disk without entries, and an environment in which nothing fails.\<close>

definition empty_disk :: state where
  "empty_disk = \<lparr>files = Map.empty, trace = []\<rparr>"

definition reliable :: env where
  "reliable = (\<lambda>_. False)"

text \<open>A property of a JSON object.\<close>

definition field :: "string \<Rightarrow> json \<Rightarrow> json option" where
  "field k j = (case j of JObject kvs \<Rightarrow> map_of kvs k | _ \<Rightarrow> None)"


text \<open>The first console line of \<^verbatim>\<open>main\<close>, and the lines of its summary.\<close>

definition start_notice :: string where
  "start_notice =
     [CHR 0xF0, CHR 0x9F, CHR 0x9A, CHR 0x80] @
     '' Initializing missing Cloudflare Studio repositories...'' @ nl"

definition summary_lines :: "string list" where
  "summary_lines =
     [nl @ [CHR 0xE2, CHR 0x9C, CHR 0xA8] @ '' All repositories initialized!'',
      nl @ [CHR 0xF0, CHR 0x9F, CHR 0x93, CHR 0x8A] @ '' Repository Summary:'',
      nl @ ''Public (Open Source):''] @
     map (\<lambda>r. ''  - '' @ name r @ '': '' @ description r) (filter (\<lambda>r. \<not> isPrivate r) REPOS_TO_CREATE) @
     [nl @ ''Private (Business):''] @
     map (\<lambda>r. ''  - '' @ name r @ '': '' @ description r) (filter (\<lambda>r. isPrivate r) REPOS_TO_CREATE)"

text \<open>
  Two operations of the first descriptor, one state and one disk, for the concrete runs
  below: the write of its ignore file, its \<^verbatim>\<open>gh\<close> call, the state in which
  \<^verbatim>\<open>main\<close> reaches it, and a disk on which every path exists.
\<close>

definition gitignore_write :: effect where
  "gitignore_write = WriteFile (BASE_DIR @ [''claude-docs'', ''.gitignore'']) gitignore"

definition gh_call :: effect where
  "gh_call =
     ExecSync
      (''gh repo create cloudflare-studio/claude-docs --public --description '' @ dq @
       [CHR 0xF0, CHR 0x9F, CHR 0xA4, CHR 0x96] @
       '' AI-first documentation system for Cloudflare Studio'' @ dq @ '' --push --source .'')
      (BASE_DIR @ [''claude-docs''])"

definition started :: state where
  "started = emit (ConsoleLog start_notice) empty_disk"

definition full_disk :: state where
  "full_disk = \<lparr>files = (\<lambda>p. Some Directory), trace = []\<rparr>"

section \<open>Facts about the script\<close>

subsection \<open>The functions of the script are straight-line runs\<close>

lemma exec_append:
  "exec env (a @ b) s =
     (case exec env a s of (Returned, s') \<Rightarrow> exec env b s' | (Threw e, s') \<Rightarrow> (Threw e, s'))"
  by (induction a arbitrary: s) auto

lemma block_exec2: "block (exec env a # exec env b # fs) = block (exec env (a @ b) # fs)"
  by (rule ext) (auto simp: exec_append split: prod.splits outcome.splits)

lemma block_exec1: "block [exec env a] = exec env a"
  by (rule ext) (auto split: prod.splits outcome.splits)

lemma block_Nil_exec: "block [] = exec env []"
  by (rule ext) simp

lemma console_log_exec: "console_log l = exec env [ConsoleLog l]"
  by (rule ext) (simp add: console_log_def fallible_def perform_def)

lemma fs_mkdir_exec: "fs_mkdir env p = exec env [Mkdir p]"
  by (rule ext) (simp add: fs_mkdir_def fallible_def perform_def failed_def)

lemma fs_writeFile_exec: "fs_writeFile env p t = exec env [WriteFile p t]"
  by (rule ext) (simp add: fs_writeFile_def fallible_def perform_def failed_def)

lemma runCommand_exec: "runCommand env cmd cwd = exec env (run_command cmd cwd)"
  by (rule ext)
     (simp add: runCommand_def run_command_def console_log_def console_error_def try_catch_def
        execSync_def throw_def fallible_def perform_def failed_def)

lemma if_exec: "(if c then exec env a else exec env b) = exec env (if c then a else b)"
  by simp

lemma createPackageJson_exec:
  "createPackageJson env rp config =
     exec env [WriteFile (path_join rp ''package.json'') (JSON_stringify (packageJson config) @ nl)]"
  by (simp add: createPackageJson_def fs_writeFile_exec)

lemma createTsConfig_exec:
  "createTsConfig env rp =
     exec env [WriteFile (path_join rp ''tsconfig.json'') (JSON_stringify tsconfig @ nl)]"
  by (simp add: createTsConfig_def fs_writeFile_exec)

lemma createSourceFiles_exec:
  "createSourceFiles env rp config =
     exec env
      (Mkdir (path_join rp ''src'') #
       (if type config = Plugin then
          [WriteFile (path_join (path_join rp ''src'') ''index.ts'') (pluginCode config)]
        else if type config = App then
          [WriteFile (path_join (path_join rp ''src'') ''index.ts'') (appCode config)]
        else if type config = Library then
          [WriteFile (path_join (path_join rp ''src'') ''index.ts'') (libCode config)]
        else []))"
  unfolding createSourceFiles_def Let_def fs_mkdir_exec fs_writeFile_exec block_Nil_exec[of env]
    if_exec block_exec2 block_exec1
  by simp

lemma createConfigFiles_exec:
  "createConfigFiles env rp config =
     exec env
      (if type config = Config then
         [WriteFile (path_join rp ''cfstudio.yaml'') (cfstudioYaml config),
          WriteFile (path_join rp ''README.md'') (usage_readme config)]
       else [])"
  unfolding createConfigFiles_def fs_writeFile_exec block_Nil_exec[of env] block_exec2 block_exec1
    if_exec
  by simp

lemma createGitignore_exec:
  "createGitignore env rp = exec env [WriteFile (path_join rp ''.gitignore'') gitignore]"
  by (simp add: createGitignore_def fs_writeFile_exec)

lemma createGitHubActions_exec:
  "createGitHubActions env rp config =
     exec env
      [Mkdir (path_join (path_join rp ''.github'') ''workflows''),
       WriteFile (path_join (path_join (path_join rp ''.github'') ''workflows'') ''ci.yml'')
         (ciWorkflow config)]"
  unfolding createGitHubActions_def Let_def fs_mkdir_exec fs_writeFile_exec block_exec2 block_exec1
  by simp

lemma createReadme_exec:
  "createReadme env rp config = exec env [WriteFile (path_join rp ''README.md'') (readme config)]"
  by (simp add: createReadme_def fs_writeFile_exec)

subsection \<open>The two branches of \<^verbatim>\<open>initializeRepo\<close>\<close>

lemma block_append:
  "block (fs @ gs) s =
     (case block fs s of (Returned, s') \<Rightarrow> block gs s' | (Threw e, s') \<Rightarrow> (Threw e, s'))"
  by (induction fs arbitrary: s) (auto split: prod.splits outcome.splits)

lemma block_single: "block [f] s = f s"
  by (auto split: prod.splits outcome.splits)

lemma block_log_then: "block [console_log l, g] s = g (emit (ConsoleLog l) s)"
  by (cases "g (emit (ConsoleLog l) s)") (auto simp: console_log_def split: outcome.splits)

lemma perform_ConsoleLog: "perform (ConsoleLog l) s = emit (ConsoleLog l) s"
  by (simp add: perform_def)

lemma fs_access_emit: "fs_access (emit e s) p = fs_access s p"
  by (simp add: fs_access_def emit_def)

lemma initializeRepo_existing:
  assumes "fs_access s (repoPath config)"
  shows "initializeRepo env config s = (Returned, perform (ConsoleLog skip_notice) (perform (ConsoleLog (creating_notice config)) s))"
  using assms
  by (simp add: initializeRepo_def repoPath_def Let_def console_log_def fs_access_emit
      perform_def skip_notice_def creating_notice_def)

lemma gh_step:
  "try_catch
     (block [runCommand env (gh_command config) (repoPath config), console_log pushed_notice])
     (\<lambda>error. console_log warning_notice) s
   = (Returned, publish env config s)"
  by (simp add: try_catch_def runCommand_exec run_command_def console_log_def publish_def
      perform_def fallible_def)

lemma initializeRepo_fresh:
  assumes "\<not> fs_access s (repoPath config)"
  shows "initializeRepo env config s =
     (case exec env (ConsoleLog (creating_notice config) # plan config) s of
        (Returned, s') \<Rightarrow> (Returned, publish env config s')
      | (Threw e, s') \<Rightarrow> (Threw e, s'))"
proof -
  have steps: "block
     [fs_mkdir env (repoPath config),
      runCommand env ''git init'' (repoPath config),
      (if type config \<noteq> Config then
         block
          [createPackageJson env (repoPath config) config,
           createTsConfig env (repoPath config),
           createSourceFiles env (repoPath config) config]
       else createConfigFiles env (repoPath config) config),
      createGitignore env (repoPath config),
      createGitHubActions env (repoPath config) config,
      createReadme env (repoPath config) config,
      runCommand env ''git add .'' (repoPath config),
      runCommand env (commit_command config) (repoPath config)] = exec env (plan config)"
    unfolding createPackageJson_exec createTsConfig_exec createSourceFiles_exec
      createConfigFiles_exec createGitignore_exec createGitHubActions_exec createReadme_exec
      fs_mkdir_exec runCommand_exec block_exec2 block_exec1 if_exec plan_def
    by (cases "type config") simp_all
  have split_last: "\<And>fs g s. block (fs @ [g]) s =
      (case block fs s of (Returned, s') \<Rightarrow> g s' | (Threw e, s') \<Rightarrow> (Threw e, s'))"
    by (auto simp: block_append split: prod.splits outcome.splits)
  have "initializeRepo env config s =
      block ([fs_mkdir env (repoPath config),
      runCommand env ''git init'' (repoPath config),
      (if type config \<noteq> Config then
         block
          [createPackageJson env (repoPath config) config,
           createTsConfig env (repoPath config),
           createSourceFiles env (repoPath config) config]
       else createConfigFiles env (repoPath config) config),
      createGitignore env (repoPath config),
      createGitHubActions env (repoPath config) config,
      createReadme env (repoPath config) config,
      runCommand env ''git add .'' (repoPath config),
      runCommand env (commit_command config) (repoPath config)] @
      [try_catch
     (block [runCommand env (gh_command config) (repoPath config), console_log pushed_notice])
     (\<lambda>error. console_log warning_notice)])
       (perform (ConsoleLog (creating_notice config)) s)"
    unfolding initializeRepo_def Let_def repoPath_def[symmetric] commit_command_def[symmetric]
      gh_command_def[symmetric] creating_notice_def[symmetric] pushed_notice_def[symmetric]
      warning_notice_def[symmetric] block_log_then fs_access_emit perform_ConsoleLog
    using assms by (simp only: if_False append.simps)
  also have "\<dots> = (case exec env (plan config) (perform (ConsoleLog (creating_notice config)) s) of
        (Returned, s') \<Rightarrow> (Returned, publish env config s')
      | (Threw e, s') \<Rightarrow> (Threw e, s'))"
    unfolding split_last steps gh_step ..
  finally show ?thesis
    by (simp add: fallible_def)
qed

subsection \<open>Running a list of operations\<close>

lemma trace_emit: "trace (emit e s) = trace s @ [e]"
  by (simp add: emit_def)

lemma files_emit: "files (emit e s) = files s"
  by (simp add: emit_def)

lemma trace_perform: "trace (perform e s) = trace s @ [e]"
  by (cases e) (simp_all add: perform_def emit_def)

lemma trace_fold_perform: "trace (fold perform es s) = trace s @ es"
  by (induction es arbitrary: s) (simp_all add: trace_perform)

lemma trace_failed:
  "trace (failed e s) =
     trace s @ e #
       (case e of
          ExecSync cmd cwd \<Rightarrow>
            [ConsoleError (''  '' @ [CHR 0xE2, CHR 0x9D, CHR 0x8C] @ '' Command failed: '' @ cmd)]
        | _ \<Rightarrow> [])"
  by (cases e) (simp_all add: failed_def emit_def)

lemma files_failed: "files (failed e s) = files s"
  by (cases e) (simp_all add: failed_def emit_def)

lemma exec_Returned_iff:
  "exec env es s = (Returned, s') \<longleftrightarrow>
     (\<forall>e\<in>set es. fallible e \<longrightarrow> \<not> env e) \<and> s' = fold perform es s"
  by (induction es arbitrary: s) auto

lemma exec_Threw:
  assumes "exec env es s = (Threw e, s')"
  shows "\<exists>pre post. es = pre @ e # post \<and> fallible e \<and> env e \<and>
           (\<forall>x\<in>set pre. fallible x \<longrightarrow> \<not> env x) \<and> s' = failed e (fold perform pre s)"
  using assms
proof (induction es arbitrary: s)
  case Nil
  then show ?case by simp
next
  case (Cons x xs)
  show ?case
  proof (cases "fallible x \<and> env x")
    case True
    with Cons.prems have "x = e" "s' = failed e s" by auto
    with True show ?thesis by (intro exI[of _ "[]"] exI[of _ xs]) simp
  next
    case False
    with Cons.prems have "exec env xs (perform x s) = (Threw e, s')" by auto
    from Cons.IH[OF this] obtain pre post where
      "xs = pre @ e # post" "fallible e" "env e" "\<forall>y\<in>set pre. fallible y \<longrightarrow> \<not> env y"
      "s' = failed e (fold perform pre (perform x s))" by blast
    with False show ?thesis
      by (intro exI[of _ "x # pre"] exI[of _ post]) auto
  qed
qed

subsection \<open>What exists stays\<close>

lemma fold_mkdir_keeps:
  "m q \<noteq> None \<Longrightarrow>
   fold (\<lambda>q m'. if m' q = None then m'(q \<mapsto> Directory) else m') qs m q \<noteq> None"
  by (induction qs arbitrary: m) auto

lemma fold_mkdir_makes:
  "q \<in> set qs \<Longrightarrow>
   fold (\<lambda>q m'. if m' q = None then m'(q \<mapsto> Directory) else m') qs m q \<noteq> None"
proof (induction qs arbitrary: m)
  case Nil
  then show ?case by simp
next
  case (Cons a qs)
  show ?case
  proof (cases "q = a")
    case True
    have "(if m a = None then m(a \<mapsto> Directory) else m) q \<noteq> None"
      using True by auto
    then show ?thesis
      using fold_mkdir_keeps[of "if m a = None then m(a \<mapsto> Directory) else m" q qs] by simp
  next
    case False
    with Cons show ?thesis by simp
  qed
qed

lemma make_dirs_keeps: "m q \<noteq> None \<Longrightarrow> make_dirs p m q \<noteq> None"
  unfolding make_dirs_def by (rule fold_mkdir_keeps)

lemma make_dirs_makes: "q \<in> set (ancestors p) \<Longrightarrow> make_dirs p m q \<noteq> None"
  unfolding make_dirs_def by (rule fold_mkdir_makes)

lemma self_in_ancestors: "p \<noteq> [] \<Longrightarrow> p \<in> set (ancestors p)"
  by (induction p) auto

lemma fs_access_perform: "fs_access s p \<Longrightarrow> fs_access (perform e s) p"
  by (cases e) (auto simp: fs_access_def perform_def emit_def make_dirs_keeps)

lemma fs_access_fold_perform: "fs_access s p \<Longrightarrow> fs_access (fold perform es s) p"
  by (induction es arbitrary: s) (simp_all add: fs_access_perform)

lemma fs_access_failed: "fs_access (failed e s) p = fs_access s p"
  by (simp add: fs_access_def files_failed)

lemma fs_access_Mkdir: "fs_access (perform (Mkdir p) s) p"
proof (cases "p = []")
  case True
  then show ?thesis by (simp add: fs_access_def)
next
  case False
  then show ?thesis
    by (simp add: fs_access_def perform_def emit_def make_dirs_makes self_in_ancestors)
qed

lemma fs_access_publish: "fs_access s p \<Longrightarrow> fs_access (publish env config s) p"
  by (simp add: publish_def fs_access_perform fs_access_failed)

subsection \<open>Paths\<close>

lemma split_no_sep: "sep \<notin> set s \<Longrightarrow> split sep s = [s]"
  by (induction s) auto

lemma path_join_segment:
  "CHR ''/'' \<notin> set seg \<Longrightarrow> seg \<noteq> [] \<Longrightarrow> seg \<noteq> ''.'' \<Longrightarrow> seg \<noteq> ''..'' \<Longrightarrow>
   path_join p seg = p @ [seg]"
  by (simp add: path_join_def split_no_sep path_step_def)

lemma path_join_names:
  "path_join p ''package.json'' = p @ [''package.json'']"
  "path_join p ''tsconfig.json'' = p @ [''tsconfig.json'']"
  "path_join p ''src'' = p @ [''src'']"
  "path_join p ''index.ts'' = p @ [''index.ts'']"
  "path_join p ''cfstudio.yaml'' = p @ [''cfstudio.yaml'']"
  "path_join p ''README.md'' = p @ [''README.md'']"
  "path_join p ''.gitignore'' = p @ [''.gitignore'']"
  "path_join p ''.github'' = p @ [''.github'']"
  "path_join p ''workflows'' = p @ [''workflows'']"
  "path_join p ''ci.yml'' = p @ [''ci.yml'']"
  by (simp_all add: path_join_segment)

subsection \<open>The ways a call can end\<close>

lemma issued_append: "trace s' = trace s @ evs \<Longrightarrow> issued s s' = evs"
  by (simp add: issued_def)

lemma trace_publish: "trace (publish env config s) = trace s @ publish_effects env config"
  by (simp add: publish_def publish_effects_def run_command_def trace_perform trace_failed)

lemma files_perform_other:
  "files (perform (ExecSync cmd cwd) s) = files s"
  "files (perform (ConsoleLog l) s) = files s"
  "files (perform (ConsoleError l) s) = files s"
  by (simp_all add: perform_def emit_def)

lemma files_perform_WriteFile: "files (perform (WriteFile p text) s) = (files s)(p \<mapsto> File text)"
  by (simp add: perform_def emit_def)

lemma files_perform_Mkdir: "files (perform (Mkdir p) s) = make_dirs p (files s)"
  by (simp add: perform_def emit_def)

lemma files_publish: "files (publish env config s) = files s"
  by (simp add: publish_def files_perform_other files_failed)

lemma run_existing:
  assumes "fs_access s (repoPath config)" and "initializeRepo env config s = (out, s')"
  shows "out = Returned" and "files s' = files s"
    and "trace s' = trace s @ [ConsoleLog (creating_notice config), ConsoleLog skip_notice]"
  using assms by (auto simp: initializeRepo_existing files_perform_other trace_perform)

lemma run_fresh_Returned:
  assumes "\<not> fs_access s (repoPath config)" and "initializeRepo env config s = (Returned, s')"
  shows "\<forall>e\<in>set (plan config). fallible e \<longrightarrow> \<not> env e"
    and "s' = publish env config (fold perform (plan config) (perform (ConsoleLog (creating_notice config)) s))"
    and "trace s' = trace s @ ConsoleLog (creating_notice config) # plan config @ publish_effects env config"
proof -
  from assms obtain s1 where
    s1: "exec env (ConsoleLog (creating_notice config) # plan config) s = (Returned, s1)"
    and s': "s' = publish env config s1"
    by (auto simp: initializeRepo_fresh split: prod.splits outcome.splits if_splits)
  from s1 have ok: "\<forall>e\<in>set (plan config). fallible e \<longrightarrow> \<not> env e"
    and "s1 = fold perform (ConsoleLog (creating_notice config) # plan config) s"
    unfolding exec_Returned_iff by auto
  with s' show "\<forall>e\<in>set (plan config). fallible e \<longrightarrow> \<not> env e"
    and "s' = publish env config (fold perform (plan config) (perform (ConsoleLog (creating_notice config)) s))"
    by simp_all
  then show "trace s' = trace s @ ConsoleLog (creating_notice config) # plan config @ publish_effects env config"
    by (simp add: trace_publish trace_fold_perform trace_perform)
qed

lemma run_fresh_Threw:
  assumes "\<not> fs_access s (repoPath config)" and "initializeRepo env config s = (Threw e, s')"
  shows "\<exists>pre post. plan config = pre @ e # post \<and> fallible e \<and> env e \<and>
           (\<forall>x\<in>set pre. fallible x \<longrightarrow> \<not> env x) \<and>
           s' = failed e (fold perform pre (perform (ConsoleLog (creating_notice config)) s))"
proof -
  from assms have "exec env (ConsoleLog (creating_notice config) # plan config) s = (Threw e, s')"
    by (auto simp: initializeRepo_fresh split: prod.splits outcome.splits if_splits)
  then have "exec env (plan config) (perform (ConsoleLog (creating_notice config)) s) = (Threw e, s')"
    by (simp add: fallible_def)
  from exec_Threw[OF this] show ?thesis .
qed

lemma state_trace_eq:
  "files s' = files (s::state) \<Longrightarrow> trace s' = t \<Longrightarrow> s' = s\<lparr>trace := t\<rparr>"
  by (cases s, cases s') simp

lemma returned_target_exists:
  assumes "initializeRepo env config s = (Returned, s')"
  shows "fs_access s' (repoPath config)"
proof (cases "fs_access s (repoPath config)")
  case True
  from run_existing(2)[OF True assms] True show ?thesis
    by (simp add: fs_access_def)
next
  case False
  obtain rest where "plan config = Mkdir (repoPath config) # rest"
    by (simp add: plan_def)
  with run_fresh_Returned(2)[OF False assms]
  have "s' = publish env config
          (fold perform rest
             (perform (Mkdir (repoPath config)) (perform (ConsoleLog (creating_notice config)) s)))"
    by simp
  then show ?thesis
    by (simp only: fs_access_publish fs_access_fold_perform fs_access_Mkdir)
qed

lemma run_fresh_all_succeed:
  assumes "\<not> fs_access s (repoPath config)" and "\<forall>e\<in>set (plan config). fallible e \<longrightarrow> \<not> env e"
  shows "initializeRepo env config s =
           (Returned,
            publish env config
              (fold perform (plan config) (perform (ConsoleLog (creating_notice config)) s)))"
proof -
  have "exec env (ConsoleLog (creating_notice config) # plan config) s =
          (Returned, fold perform (ConsoleLog (creating_notice config) # plan config) s)"
    unfolding exec_Returned_iff using assms(2) by (simp add: fallible_def)
  with assms(1) show ?thesis
    by (simp add: initializeRepo_fresh)
qed

subsection \<open>Files written and commands run\<close>

lemma written_append: "written (a @ b) = written a @ written b"
  by (simp add: written_def)

lemma commands_append: "commands (a @ b) = commands a @ commands b"
  by (simp add: commands_def)

lemma written_Cons:
  "written (WriteFile p text # evs) = (p, text) # written evs"
  "written (Mkdir q # evs) = written evs"
  "written (ExecSync cmd cwd # evs) = written evs"
  "written (ConsoleLog l # evs) = written evs"
  "written (ConsoleError l # evs) = written evs"
  "written [] = []"
  by (simp_all add: written_def)

lemma commands_Cons:
  "commands (ExecSync cmd cwd # evs) = (cmd, cwd) # commands evs"
  "commands (Mkdir q # evs) = commands evs"
  "commands (WriteFile p text # evs) = commands evs"
  "commands (ConsoleLog l # evs) = commands evs"
  "commands (ConsoleError l # evs) = commands evs"
  "commands [] = []"
  by (simp_all add: commands_def)

lemma commands_plan:
  "commands (plan config) =
     [(''git init'', repoPath config), (''git add .'', repoPath config),
      (commit_command config, repoPath config)]"
  by (simp add: plan_def run_command_def commands_append commands_Cons)

lemma commands_publish_effects:
  "commands (publish_effects env config) = [(gh_command config, repoPath config)]"
  by (simp add: publish_effects_def run_command_def commands_append commands_Cons)

lemma written_publish_effects: "written (publish_effects env config) = []"
  by (simp add: publish_effects_def run_command_def written_append written_Cons)

lemma written_plan:
  "written (plan config) =
     (if type config \<noteq> Config then
        [(path_join (repoPath config) ''package.json'', JSON_stringify (packageJson config) @ nl),
         (path_join (repoPath config) ''tsconfig.json'', JSON_stringify tsconfig @ nl)] @
        (if type config = Plugin then
           [(path_join (path_join (repoPath config) ''src'') ''index.ts'', pluginCode config)]
         else if type config = App then
           [(path_join (path_join (repoPath config) ''src'') ''index.ts'', appCode config)]
         else if type config = Library then
           [(path_join (path_join (repoPath config) ''src'') ''index.ts'', libCode config)]
         else [])
      else
        [(path_join (repoPath config) ''cfstudio.yaml'', cfstudioYaml config),
         (path_join (repoPath config) ''README.md'', usage_readme config)]) @
     [(path_join (repoPath config) ''.gitignore'', gitignore),
      (path_join (path_join (path_join (repoPath config) ''.github'') ''workflows'') ''ci.yml'',
       ciWorkflow config),
      (path_join (repoPath config) ''README.md'', readme config)]"
  by (simp add: plan_def run_command_def written_append written_Cons)

lemma issued_fresh_Returned:
  assumes "\<not> fs_access s (repoPath config)" and "initializeRepo env config s = (Returned, s')"
  shows "issued s s' = ConsoleLog (creating_notice config) # plan config @ publish_effects env config"
  using run_fresh_Returned(3)[OF assms] by (rule issued_append)

subsection \<open>Texts, and the README on disk\<close>

lemma unlines_append: "unlines (a @ b) = unlines a @ unlines b"
  by (simp add: unlines_def)

lemma suffix_unlines_drop: "unlines (drop n ls) = tail \<Longrightarrow> suffix tail (unlines ls)"
  by (metis append_take_drop_id suffixI unlines_append)


lemma readme_license:
  "suffix (''## License'' @ nl @ nl @
           (if isPrivate config then ''Proprietary - Cloudflare Studio Internal'' else ''MIT'') @ nl)
     (readme config)"
  unfolding readme_def
  by (rule suffix_unlines_drop[where n = 31]) (simp add: unlines_def)

lemma plan_ends:
  "\<exists>front. plan config =
     front @ WriteFile (path_join (repoPath config) ''README.md'') (readme config) #
     run_command ''git add .'' (repoPath config) @
     run_command (commit_command config) (repoPath config)"
  unfolding plan_def by (metis append.assoc append_Cons append_Nil)

lemma files_fresh_Returned_README:
  assumes "\<not> fs_access s (repoPath config)" and "initializeRepo env config s = (Returned, s')"
  shows "files s' (path_join (repoPath config) ''README.md'') = Some (File (readme config))"
proof -
  from plan_ends obtain front where
    "plan config =
       front @ WriteFile (path_join (repoPath config) ''README.md'') (readme config) #
       run_command ''git add .'' (repoPath config) @
       run_command (commit_command config) (repoPath config)" ..
  with run_fresh_Returned(2)[OF assms] show ?thesis
    by (simp add: files_publish run_command_def files_perform_other files_perform_WriteFile)
qed

subsection \<open>Calls that throw\<close>




subsection \<open>Runs on an empty disk\<close>

lemma reliable_run:
  assumes "\<not> fs_access s (path_join BASE_DIR (name config))"
  shows "initializeRepo reliable config s = (Returned, snd (initializeRepo reliable config s))"
  using assms run_fresh_all_succeed[of s config reliable]
  by (simp add: reliable_def repoPath_def)

lemma descriptor_names:
  "name (REPOS_TO_CREATE ! 0) = ''claude-docs''"
  "name (REPOS_TO_CREATE ! 1) = ''.claude''"
  "name (REPOS_TO_CREATE ! 2) = ''billing''"
  "name (REPOS_TO_CREATE ! 4) = ''plugin-ai''"
  "name (REPOS_TO_CREATE ! 6) = ''infrastructure''"
  by (simp_all add: REPOS_TO_CREATE_def)

lemma descriptor_targets:
  "path_join BASE_DIR ''claude-docs'' = BASE_DIR @ [''claude-docs'']"
  "path_join BASE_DIR ''.claude'' = BASE_DIR @ [''.claude'']"
  "path_join BASE_DIR ''billing'' = BASE_DIR @ [''billing'']"
  "path_join BASE_DIR ''plugin-ai'' = BASE_DIR @ [''plugin-ai'']"
  "path_join BASE_DIR ''infrastructure'' = BASE_DIR @ [''infrastructure'']"
  by (simp_all add: path_join_segment)

lemma empty_disk_fresh: "p \<noteq> [] \<Longrightarrow> \<not> fs_access empty_disk p"
  by (simp add: fs_access_def empty_disk_def)

subsection \<open>The manifest\<close>






subsection \<open>Source stubs and READMEs\<close>




lemma readme_differs: "readme config \<noteq> usage_readme config"
  by (simp add: readme_def usage_readme_def unlines_def nl_def)

lemma written_fresh_Returned:
  assumes "\<not> fs_access s (repoPath config)" and "initializeRepo env config s = (Returned, s')"
  shows "written (issued s s') = written (plan config)"
  using assms
  by (simp add: issued_fresh_Returned written_Cons written_append written_publish_effects)

lemma src_directory_made:
  assumes "type config \<noteq> Config"
      and "\<not> fs_access s (repoPath config)" and "initializeRepo env config s = (Returned, s')"
  shows "Mkdir (path_join (repoPath config) ''src'') \<in> set (issued s s')"
  using assms by (simp add: issued_fresh_Returned plan_def)

subsection \<open>The loop of \<^verbatim>\<open>main\<close>\<close>

lemma main_block:
  "main env =
     block (console_log start_notice # map (initializeRepo env) REPOS_TO_CREATE @
            map console_log summary_lines)"
  unfolding main_def start_notice_def summary_lines_def
  by (simp add: comp_def)

lemma main_reaches:
  assumes "REPOS_TO_CREATE = pre @ config # rest"
      and "block (console_log start_notice # map (initializeRepo env) pre) s0 = (Returned, s)"
  shows "main env s0 =
           (case initializeRepo env config s of
              (Returned, s') \<Rightarrow> block (map (initializeRepo env) rest @ map console_log summary_lines) s'
            | (Threw e, s') \<Rightarrow> (Threw e, s'))"
proof -
  have "main env s0 =
      block ((console_log start_notice # map (initializeRepo env) pre) @
             (initializeRepo env config # map (initializeRepo env) rest @ map console_log summary_lines)) s0"
    unfolding main_block assms(1) by simp
  also have "\<dots> = block (initializeRepo env config #
                         map (initializeRepo env) rest @ map console_log summary_lines) s"
    unfolding block_append assms(2) by simp
  finally show ?thesis by simp
qed

subsection \<open>Failures\<close>

lemma in_commands: "ExecSync cmd cwd \<in> set evs \<longleftrightarrow> (cmd, cwd) \<in> set (commands evs)"
  by (induction evs) (auto simp: commands_def split: effect.splits)

lemma in_written: "WriteFile p text \<in> set evs \<longleftrightarrow> (p, text) \<in> set (written evs)"
  by (induction evs) (auto simp: written_def split: effect.splits)

lemma gh_not_planned: "ExecSync (gh_command config) cwd \<notin> set (plan config)"
  by (simp add: in_commands commands_plan gh_command_def commit_command_def)

lemma planned_kinds:
  assumes "x \<in> set (plan config)" and "fallible x"
  shows "(\<exists>p. x = Mkdir p) \<or> (\<exists>p text. x = WriteFile p text) \<or>
         (\<exists>cmd. x = ExecSync cmd (repoPath config) \<and> startsWith cmd ''git '')"
proof (cases x)
  case (ExecSync cmd cwd)
  with assms(1) have "(cmd, cwd) \<in> set (commands (plan config))"
    by (simp add: in_commands)
  then have "cwd = repoPath config" and "startsWith cmd ''git ''"
    by (auto simp: commands_plan startsWith_def commit_command_def)
  with ExecSync show ?thesis by simp
qed (use assms(2) in \<open>simp_all add: fallible_def\<close>)

lemma fallible_publish_effects:
  assumes "x \<in> set (publish_effects env config)" and "fallible x"
  shows "x = ExecSync (gh_command config) (repoPath config)"
  using assms by (auto simp: publish_effects_def run_command_def fallible_def split: if_splits)

lemma last_publish_effects:
  "env (ExecSync (gh_command config) (repoPath config)) \<Longrightarrow>
   last (publish_effects env config) = ConsoleLog warning_notice"
  by (simp add: publish_effects_def)

lemma files_kept: "files s p \<noteq> None \<Longrightarrow> files (perform e s) p \<noteq> None"
  by (cases e)
     (simp_all add: files_perform_other files_perform_WriteFile files_perform_Mkdir make_dirs_keeps)

lemma files_kept_fold: "files s p \<noteq> None \<Longrightarrow> files (fold perform es s) p \<noteq> None"
proof (induction es arbitrary: s)
  case Nil
  then show ?case by simp
next
  case (Cons a es)
  from files_kept[OF Cons.prems] have "files (perform a s) p \<noteq> None" .
  from Cons.IH[OF this] show ?case by simp
qed

lemma fresh_Threw:
  assumes "\<not> fs_access s (repoPath config)" and "initializeRepo env config s = (Threw e, s')"
  obtains pre post where "plan config = pre @ e # post" and "fallible e" and "env e"
    and "\<forall>x\<in>set pre. fallible x \<longrightarrow> \<not> env x"
    and "s' = failed e (fold perform pre (perform (ConsoleLog (creating_notice config)) s))"
    and "issued s s' =
           ConsoleLog (creating_notice config) # pre @ e #
             (case e of
                ExecSync cmd cwd \<Rightarrow>
                  [ConsoleError (''  '' @ [CHR 0xE2, CHR 0x9D, CHR 0x8C] @ '' Command failed: '' @ cmd)]
              | _ \<Rightarrow> [])"
proof -
  from run_fresh_Threw[OF assms] obtain pre post where
    p: "plan config = pre @ e # post" "fallible e" "env e" "\<forall>x\<in>set pre. fallible x \<longrightarrow> \<not> env x"
    and s': "s' = failed e (fold perform pre (perform (ConsoleLog (creating_notice config)) s))"
    by blast
  from s' have "trace s' = trace s @ (ConsoleLog (creating_notice config) # pre @ e #
               (case e of
                  ExecSync cmd cwd \<Rightarrow>
                    [ConsoleError (''  '' @ [CHR 0xE2, CHR 0x9D, CHR 0x8C] @ '' Command failed: '' @ cmd)]
                | _ \<Rightarrow> []))"
    by (simp add: trace_failed trace_fold_perform trace_perform)
  then have "issued s s' = ConsoleLog (creating_notice config) # pre @ e #
               (case e of
                  ExecSync cmd cwd \<Rightarrow>
                    [ConsoleError (''  '' @ [CHR 0xE2, CHR 0x9D, CHR 0x8C] @ '' Command failed: '' @ cmd)]
                | _ \<Rightarrow> [])"
    by (rule issued_append)
  with p s' that show ?thesis by blast
qed

lemma written_stays:
  "WriteFile p text \<in> set es \<Longrightarrow> files (fold perform es s) p \<noteq> None"
proof (induction es arbitrary: s)
  case Nil
  then show ?case by simp
next
  case (Cons e es)
  show ?case
  proof (cases "WriteFile p text \<in> set es")
    case True
    with Cons.IH show ?thesis by simp
  next
    case False
    with Cons.prems have "e = WriteFile p text" by simp
    then have "files (perform e s) p \<noteq> None"
      by (simp add: files_perform_WriteFile)
    then show ?thesis
      by (simp add: files_kept_fold)
  qed
qed

lemma issued_writes_on_disk:
  assumes "initializeRepo env config s = (out, s')"
      and "WriteFile p text \<in> set (issued s s')" and "\<not> env (WriteFile p text)"
  shows "files s' p \<noteq> None"
proof (cases "fs_access s (repoPath config)")
  case True
  from run_existing(3)[OF True assms(1)] assms(2) show ?thesis
    by (simp add: issued_append)
next
  case False
  show ?thesis
  proof (cases out)
    case Returned
    with assms(1) False have run: "initializeRepo env config s = (Returned, s')" by simp
    from issued_fresh_Returned[OF False run] assms(2)
    have "WriteFile p text \<in> set (plan config) \<or> WriteFile p text \<in> set (publish_effects env config)"
      by auto
    then have "WriteFile p text \<in> set (plan config)"
      by (auto simp: in_written written_publish_effects)
    then show ?thesis
      unfolding run_fresh_Returned(2)[OF False run] by (simp add: files_publish written_stays)
  next
    case (Threw e)
    with assms(1) have run: "initializeRepo env config s = (Threw e, s')" by simp
    from fresh_Threw[OF False run] obtain pre post where
      p: "env e"
      and s': "s' = failed e (fold perform pre (perform (ConsoleLog (creating_notice config)) s))"
      and i: "issued s s' =
         ConsoleLog (creating_notice config) # pre @ e #
           (case e of
              ExecSync cmd cwd \<Rightarrow>
                [ConsoleError (''  '' @ [CHR 0xE2, CHR 0x9D, CHR 0x8C] @ '' Command failed: '' @ cmd)]
            | _ \<Rightarrow> [])"
      by blast
    with assms(2,3) p have "WriteFile p text \<in> set pre"
      by (cases e) auto
    with s' show ?thesis
      by (simp add: files_failed written_stays)
  qed
qed

lemma failing_operation:
  assumes run: "initializeRepo env config s = (out, s')"
      and x: "x \<in> set (issued s s')" "fallible x" "env x"
  shows "if x = ExecSync (gh_command config) (repoPath config)
         then out = Returned \<and> last (issued s s') = ConsoleLog warning_notice
         else out = Threw x \<and>
              ((\<exists>p. x = Mkdir p) \<or> (\<exists>p text. x = WriteFile p text) \<or>
               (\<exists>cmd. x = ExecSync cmd (repoPath config) \<and> startsWith cmd ''git ''))"
proof (cases "fs_access s (repoPath config)")
  case True
  from run_existing(3)[OF True run]
  have "issued s s' = [ConsoleLog (creating_notice config), ConsoleLog skip_notice]"
    by (rule issued_append)
  with x(1,2) have False
    by (auto simp: fallible_def)
  then show ?thesis ..
next
  case False
  show ?thesis
  proof (cases out)
    case Returned
    with run have run': "initializeRepo env config s = (Returned, s')" by simp
    note i = issued_fresh_Returned[OF False run']
    from run_fresh_Returned(1)[OF False run'] x have "x \<notin> set (plan config)" by blast
    moreover have "\<not> fallible (ConsoleLog (creating_notice config))"
      by (simp add: fallible_def)
    ultimately have "x \<in> set (publish_effects env config)"
      using x(1,2) unfolding i by auto
    from fallible_publish_effects[OF this x(2)] have gh: "x = ExecSync (gh_command config) (repoPath config)" .
    have "publish_effects env config \<noteq> []"
      by (simp add: publish_effects_def run_command_def)
    then have "last (issued s s') = last (publish_effects env config)"
      unfolding i by simp
    with gh x(3) Returned show ?thesis
      by (simp add: last_publish_effects)
  next
    case (Threw e)
    with run have run': "initializeRepo env config s = (Threw e, s')" by simp
    obtain pre post where
      p: "plan config = pre @ e # post" "fallible e" "env e" "\<forall>x\<in>set pre. fallible x \<longrightarrow> \<not> env x"
        "s' = failed e (fold perform pre (perform (ConsoleLog (creating_notice config)) s))"
      and i: "issued s s' =
         ConsoleLog (creating_notice config) # pre @ e #
           (case e of
              ExecSync cmd cwd \<Rightarrow>
                [ConsoleError (''  '' @ [CHR 0xE2, CHR 0x9D, CHR 0x8C] @ '' Command failed: '' @ cmd)]
            | _ \<Rightarrow> [])"
      by (rule fresh_Threw[OF False run'])
    have "\<not> fallible y"
      if "y \<in> set (case e of
              ExecSync cmd cwd \<Rightarrow>
                [ConsoleError (''  '' @ [CHR 0xE2, CHR 0x9D, CHR 0x8C] @ '' Command failed: '' @ cmd)]
            | _ \<Rightarrow> [])" for y
      using that by (cases e) (simp_all add: fallible_def)
    moreover have "\<not> fallible (ConsoleLog (creating_notice config))"
      by (simp add: fallible_def)
    ultimately have "x \<in> set pre \<or> x = e"
      using x(1,2) unfolding i by auto
    with x p(4) have "x = e" by blast
    with p(1) have planned: "x \<in> set (plan config)" by simp
    with gh_not_planned[of config "repoPath config"]
    have "x \<noteq> ExecSync (gh_command config) (repoPath config)" by blast
    with planned_kinds[OF planned x(2)] Threw \<open>x = e\<close> show ?thesis by simp
  qed
qed

subsection \<open>The first descriptor\<close>

lemma first_of_list: "REPOS_TO_CREATE = [] @ REPOS_TO_CREATE ! 0 # tl REPOS_TO_CREATE"
  by (simp add: REPOS_TO_CREATE_def)

lemma first_descriptor:
  "name (REPOS_TO_CREATE ! 0) = ''claude-docs''"
  "type (REPOS_TO_CREATE ! 0) = Library"
  "\<not> isPrivate (REPOS_TO_CREATE ! 0)"
  "description (REPOS_TO_CREATE ! 0) =
     [CHR 0xF0, CHR 0x9F, CHR 0xA4, CHR 0x96] @ '' AI-first documentation system for Cloudflare Studio''"
  by (simp_all add: REPOS_TO_CREATE_def)

lemma first_target: "repoPath (REPOS_TO_CREATE ! 0) = BASE_DIR @ [''claude-docs'']"
  by (simp add: repoPath_def first_descriptor descriptor_targets)

lemma started_fresh: "\<not> fs_access started (repoPath (REPOS_TO_CREATE ! 0))"
  by (simp add: started_def fs_access_emit first_target empty_disk_fresh)

lemma main_started:
  "block (console_log start_notice # map (initializeRepo env) []) empty_disk = (Returned, started)"
  by (simp add: console_log_def started_def)

lemma gitignore_write_planned: "gitignore_write \<in> set (plan (REPOS_TO_CREATE ! 0))"
  by (simp add: gitignore_write_def in_written written_plan first_target first_descriptor path_join_names)

lemma readme_write_planned:
  "WriteFile (BASE_DIR @ [''claude-docs'', ''README.md'']) (readme (REPOS_TO_CREATE ! 0))
     \<in> set (plan (REPOS_TO_CREATE ! 0))"
  by (simp add: in_written written_plan first_target first_descriptor path_join_names)

lemma gh_call_eq: "gh_call = ExecSync (gh_command (REPOS_TO_CREATE ! 0)) (repoPath (REPOS_TO_CREATE ! 0))"
  by (simp add: gh_call_def gh_command_def first_target first_descriptor)

lemma gitignore_write_issued:
  "gitignore_write \<in> set (issued started (snd (initializeRepo (\<lambda>e. e = gitignore_write) (REPOS_TO_CREATE ! 0) started)))"
proof -
  obtain out s' where run: "initializeRepo (\<lambda>e. e = gitignore_write) (REPOS_TO_CREATE ! 0) started = (out, s')"
    by (cases "initializeRepo (\<lambda>e. e = gitignore_write) (REPOS_TO_CREATE ! 0) started")
  have "gitignore_write \<in> set (issued started s')"
  proof (cases out)
    case Returned
    with run issued_fresh_Returned[OF started_fresh, of "\<lambda>e. e = gitignore_write" s']
      gitignore_write_planned
    show ?thesis by simp
  next
    case (Threw e)
    with run have run': "initializeRepo (\<lambda>e. e = gitignore_write) (REPOS_TO_CREATE ! 0) started = (Threw e, s')"
      by simp
    obtain pre post where
      "plan (REPOS_TO_CREATE ! 0) = pre @ e # post" "fallible e" "e = gitignore_write"
      "\<forall>x\<in>set pre. fallible x \<longrightarrow> \<not> x = gitignore_write"
      "s' = failed e (fold perform pre (perform (ConsoleLog (creating_notice (REPOS_TO_CREATE ! 0))) started))"
      "issued started s' =
         ConsoleLog (creating_notice (REPOS_TO_CREATE ! 0)) # pre @ e #
           (case e of
              ExecSync cmd cwd \<Rightarrow>
                [ConsoleError (''  '' @ [CHR 0xE2, CHR 0x9D, CHR 0x8C] @ '' Command failed: '' @ cmd)]
            | _ \<Rightarrow> [])"
      by (rule fresh_Threw[OF started_fresh run'])
    then show ?thesis by simp
  qed
  with run show ?thesis by simp
qed

subsection \<open>The summary\<close>

lemma initializeRepo_trace:
  assumes "initializeRepo env config s = (out, s')"
  shows "\<exists>evs. trace s' = trace s @ evs"
proof (cases "fs_access s (repoPath config)")
  case True
  from run_existing(3)[OF True assms] show ?thesis by blast
next
  case False
  show ?thesis
  proof (cases out)
    case Returned
    with assms run_fresh_Returned(3)[OF False, of env s'] show ?thesis by blast
  next
    case (Threw e)
    with assms have "initializeRepo env config s = (Threw e, s')" by simp
    from run_fresh_Threw[OF False this] show ?thesis
      by (auto simp: trace_failed trace_fold_perform trace_perform)
  qed
qed

lemma block_trace:
  assumes "\<And>f s out s'. f \<in> set fs \<Longrightarrow> f s = (out, s') \<Longrightarrow> \<exists>evs. trace s' = trace s @ evs"
      and "block fs s = (out, s')"
  shows "\<exists>evs. trace s' = trace s @ evs"
  using assms
proof (induction fs arbitrary: s)
  case Nil
  then show ?case by simp
next
  case (Cons f fs)
  obtain o1 s1 where f: "f s = (o1, s1)" by (cases "f s")
  from Cons.prems(1)[of f s o1 s1] f obtain evs1 where evs1: "trace s1 = trace s @ evs1" by auto
  show ?case
  proof (cases o1)
    case Returned
    with f Cons.prems(2) have "block fs s1 = (out, s')" by simp
    moreover have "\<exists>evs. trace t' = trace t @ evs" if "g \<in> set fs" "g t = (r, t')" for g t r t'
      using Cons.prems(1)[of g t r t'] that by simp
    ultimately obtain evs2 where "trace s' = trace s1 @ evs2"
      using Cons.IH[of s1] by blast
    with evs1 show ?thesis by simp
  next
    case (Threw e)
    with f Cons.prems(2) have "s' = s1" by simp
    with evs1 show ?thesis by simp
  qed
qed

lemma block_console_logs:
  "block (map console_log ls) s = (Returned, s\<lparr>trace := trace s @ map ConsoleLog ls\<rparr>)"
  by (induction ls arbitrary: s) (simp_all add: console_log_def emit_def)

lemma main_Returned:
  assumes "main env s = (Returned, s')"
  shows "\<exists>earlier. trace s' = trace s @ earlier @ map ConsoleLog summary_lines"
proof -
  let ?loop = "console_log start_notice # map (initializeRepo env) REPOS_TO_CREATE"
  obtain o1 s1 where loop: "block ?loop s = (o1, s1)" by (cases "block ?loop s")
  have "main env s =
      (case block ?loop s of
         (Returned, t) \<Rightarrow> block (map console_log summary_lines) t
       | (Threw e, t) \<Rightarrow> (Threw e, t))"
    unfolding main_block append_Cons[symmetric] block_append ..
  with assms loop have "o1 = Returned" and "block (map console_log summary_lines) s1 = (Returned, s')"
    by (cases o1; simp del: block.simps)+
  then have s': "trace s' = trace s1 @ map ConsoleLog summary_lines"
    by (auto simp: block_console_logs)
  have "\<exists>evs. trace s1 = trace s @ evs"
  proof (rule block_trace[OF _ loop])
    fix f t out t'
    assume "f \<in> set ?loop" and "f t = (out, t')"
    then show "\<exists>evs. trace t' = trace t @ evs"
      by (auto simp: console_log_def emit_def dest: initializeRepo_trace)
  qed
  with s' show ?thesis by auto
qed

lemma summary_lines_eq:
  "map ConsoleLog summary_lines =
     [ConsoleLog (nl @ [CHR 0xE2, CHR 0x9C, CHR 0xA8] @ '' All repositories initialized!''),
      ConsoleLog (nl @ [CHR 0xF0, CHR 0x9F, CHR 0x93, CHR 0x8A] @ '' Repository Summary:''),
      ConsoleLog (nl @ ''Public (Open Source):'')] @
     map (\<lambda>r. ConsoleLog (''  - '' @ name r @ '': '' @ description r))
       (filter (\<lambda>r. \<not> isPrivate r) REPOS_TO_CREATE) @
     [ConsoleLog (nl @ ''Private (Business):'')] @
     map (\<lambda>r. ConsoleLog (''  - '' @ name r @ '': '' @ description r))
       (filter (\<lambda>r. isPrivate r) REPOS_TO_CREATE)"
  unfolding summary_lines_def by (simp add: comp_def)

lemma public_private_names:
  "map name (filter (\<lambda>r. \<not> isPrivate r) REPOS_TO_CREATE) = [''claude-docs'', ''.claude'']"
  "map name (filter (\<lambda>r. isPrivate r) REPOS_TO_CREATE) =
     [''billing'', ''analytics'', ''plugin-ai'', ''plugin-enterprise'', ''infrastructure'',
      ''runbooks'', ''monitoring'']"
  by (simp_all add: REPOS_TO_CREATE_def)

lemma all_present_skips:
  assumes "\<forall>p. fs_access s p"
  shows "\<exists>s'. block (map (initializeRepo env) rs) s = (Returned, s') \<and> (\<forall>p. fs_access s' p)"
  using assms
proof (induction rs arbitrary: s)
  case Nil
  then show ?case by simp
next
  case (Cons r rs)
  let ?s1 = "perform (ConsoleLog skip_notice) (perform (ConsoleLog (creating_notice r)) s)"
  from Cons.prems have "initializeRepo env r s = (Returned, ?s1)"
    by (simp add: initializeRepo_existing)
  moreover from Cons.prems have "\<forall>p. fs_access ?s1 p"
    by (simp add: fs_access_perform)
  from Cons.IH[OF this] obtain s' where
    "block (map (initializeRepo env) rs) ?s1 = (Returned, s')" "\<forall>p. fs_access s' p"
    by blast
  ultimately show ?case by simp
qed

lemma main_full_disk: "main env full_disk = (Returned, snd (main env full_disk))"
proof -
  have "\<forall>p. fs_access (emit (ConsoleLog start_notice) full_disk) p"
    by (simp add: fs_access_def emit_def full_disk_def)
  from all_present_skips[OF this, of env REPOS_TO_CREATE] obtain s1 where
    "block (map (initializeRepo env) REPOS_TO_CREATE) (emit (ConsoleLog start_notice) full_disk) =
       (Returned, s1)"
    by blast
  then have "block (console_log start_notice # map (initializeRepo env) REPOS_TO_CREATE) full_disk =
      (Returned, s1)"
    by (simp add: console_log_def)
  then have "main env full_disk = block (map console_log summary_lines) s1"
    unfolding main_block append_Cons[symmetric] block_append by simp
  then have "fst (main env full_disk) = Returned"
    by (simp add: block_console_logs)
  then show ?thesis
    by (simp add: prod_eq_iff)
qed

section \<open>The claims\<close>

text \<open>
  Claim C1. The second descriptor of the list, \<^verbatim>\<open>.claude\<close>, has type \<^verbatim>\<open>docs\<close>, which
  is not \<^verbatim>\<open>config\<close>. On an empty disk, with nothing failing, \<^verbatim>\<open>initializeRepo\<close>
  returns for it after writing five files, none of which is \<^verbatim>\<open>src/index.ts\<close>: the
  directory \<^verbatim>\<open>src\<close> is created and left empty, while the manifest written in the same
  call names \<^verbatim>\<open>dist/index.js\<close> as its entry and builds from \<^verbatim>\<open>src/index.ts\<close>. So the
  statement that every descriptor outside the configuration category gets one stub source
  file does not hold of the code.
\<close>

theorem docs_descriptor_without_stub:
  "type (REPOS_TO_CREATE ! 1) = Docs
   \<and> \<not> fs_access empty_disk (path_join BASE_DIR (name (REPOS_TO_CREATE ! 1)))
   \<and> fst (initializeRepo reliable (REPOS_TO_CREATE ! 1) empty_disk) = Returned
   \<and> map fst (written (issued empty_disk (snd (initializeRepo reliable (REPOS_TO_CREATE ! 1) empty_disk)))) =
      [BASE_DIR @ [''.claude'', ''package.json''],
       BASE_DIR @ [''.claude'', ''tsconfig.json''],
       BASE_DIR @ [''.claude'', ''.gitignore''],
       BASE_DIR @ [''.claude'', ''.github'', ''workflows'', ''ci.yml''],
       BASE_DIR @ [''.claude'', ''README.md'']]
   \<and> Mkdir (BASE_DIR @ [''.claude'', ''src''])
        \<in> set (issued empty_disk (snd (initializeRepo reliable (REPOS_TO_CREATE ! 1) empty_disk)))
   \<and> field ''main'' (packageJson (REPOS_TO_CREATE ! 1)) = Some (JString ''dist/index.js'')
   \<and> (case field ''scripts'' (packageJson (REPOS_TO_CREATE ! 1)) of
         None \<Rightarrow> None
       | Some scripts \<Rightarrow> field ''build'' scripts) = Some (JString ''tsup src/index.ts --format esm'')"
proof -
  have type: "type (REPOS_TO_CREATE ! 1) = Docs"
    by (simp add: REPOS_TO_CREATE_def)
  have fresh: "\<not> fs_access empty_disk (path_join BASE_DIR (name (REPOS_TO_CREATE ! 1)))"
    by (simp add: descriptor_names descriptor_targets empty_disk_fresh del: One_nat_def)
  then have fresh': "\<not> fs_access empty_disk (repoPath (REPOS_TO_CREATE ! 1))"
    by (simp add: repoPath_def del: One_nat_def)
  have returned: "fst (initializeRepo reliable (REPOS_TO_CREATE ! 1) empty_disk) = Returned"
    using reliable_run[OF fresh] by (metis fst_conv)
  have "map fst (written (issued empty_disk (snd (initializeRepo reliable (REPOS_TO_CREATE ! 1) empty_disk)))) =
      [BASE_DIR @ [''.claude'', ''package.json''],
       BASE_DIR @ [''.claude'', ''tsconfig.json''],
       BASE_DIR @ [''.claude'', ''.gitignore''],
       BASE_DIR @ [''.claude'', ''.github'', ''workflows'', ''ci.yml''],
       BASE_DIR @ [''.claude'', ''README.md'']]"
    unfolding written_fresh_Returned[OF fresh' reliable_run[OF fresh]]
    by (simp add: written_plan type repoPath_def descriptor_names descriptor_targets path_join_names
        del: One_nat_def)
  moreover have "Mkdir (BASE_DIR @ [''.claude'', ''src''])
        \<in> set (issued empty_disk (snd (initializeRepo reliable (REPOS_TO_CREATE ! 1) empty_disk)))"
    using src_directory_made[OF _ fresh' reliable_run[OF fresh]]
    by (simp add: type repoPath_def descriptor_names descriptor_targets path_join_names
        del: One_nat_def)
  moreover have "field ''main'' (packageJson (REPOS_TO_CREATE ! 1)) = Some (JString ''dist/index.js'')"
    "(case field ''scripts'' (packageJson (REPOS_TO_CREATE ! 1)) of
         None \<Rightarrow> None
       | Some scripts \<Rightarrow> field ''build'' scripts) = Some (JString ''tsup src/index.ts --format esm'')"
    by (simp_all add: field_def packageJson_def type del: One_nat_def)
  ultimately show ?thesis
    using type fresh returned by (simp del: One_nat_def)
qed

text \<open>
  Claim C2. The seventh descriptor of the list, \<^verbatim>\<open>infrastructure\<close>, has type
  \<^verbatim>\<open>config\<close>. On an empty disk, with nothing failing, \<^verbatim>\<open>initializeRepo\<close> writes
  \<^verbatim>\<open>README.md\<close> twice, first the usage text, then the general text, to the same path;
  when it returns the file holds the general text, which differs from the usage text. So
  the two READMEs do not both exist after the run.
\<close>

theorem usage_readme_overwritten:
  "type (REPOS_TO_CREATE ! 6) = Config
   \<and> \<not> fs_access empty_disk (path_join BASE_DIR (name (REPOS_TO_CREATE ! 6)))
   \<and> fst (initializeRepo reliable (REPOS_TO_CREATE ! 6) empty_disk) = Returned
   \<and> filter (\<lambda>(p, text). p = BASE_DIR @ [''infrastructure'', ''README.md''])
        (written (issued empty_disk (snd (initializeRepo reliable (REPOS_TO_CREATE ! 6) empty_disk)))) =
      [(BASE_DIR @ [''infrastructure'', ''README.md''], usage_readme (REPOS_TO_CREATE ! 6)),
       (BASE_DIR @ [''infrastructure'', ''README.md''], readme (REPOS_TO_CREATE ! 6))]
   \<and> files (snd (initializeRepo reliable (REPOS_TO_CREATE ! 6) empty_disk))
        (BASE_DIR @ [''infrastructure'', ''README.md'']) = Some (File (readme (REPOS_TO_CREATE ! 6)))
   \<and> readme (REPOS_TO_CREATE ! 6) \<noteq> usage_readme (REPOS_TO_CREATE ! 6)"
proof -
  have type: "type (REPOS_TO_CREATE ! 6) = Config"
    by (simp add: REPOS_TO_CREATE_def)
  have fresh: "\<not> fs_access empty_disk (path_join BASE_DIR (name (REPOS_TO_CREATE ! 6)))"
    by (simp add: descriptor_names descriptor_targets empty_disk_fresh)
  then have fresh': "\<not> fs_access empty_disk (repoPath (REPOS_TO_CREATE ! 6))"
    by (simp add: repoPath_def)
  have returned: "fst (initializeRepo reliable (REPOS_TO_CREATE ! 6) empty_disk) = Returned"
    using reliable_run[OF fresh] by (metis fst_conv)
  have "filter (\<lambda>(p, text). p = BASE_DIR @ [''infrastructure'', ''README.md''])
        (written (issued empty_disk (snd (initializeRepo reliable (REPOS_TO_CREATE ! 6) empty_disk)))) =
      [(BASE_DIR @ [''infrastructure'', ''README.md''], usage_readme (REPOS_TO_CREATE ! 6)),
       (BASE_DIR @ [''infrastructure'', ''README.md''], readme (REPOS_TO_CREATE ! 6))]"
    unfolding written_fresh_Returned[OF fresh' reliable_run[OF fresh]]
    by (simp add: written_plan type repoPath_def descriptor_names descriptor_targets path_join_names)
  moreover have "files (snd (initializeRepo reliable (REPOS_TO_CREATE ! 6) empty_disk))
        (BASE_DIR @ [''infrastructure'', ''README.md'']) = Some (File (readme (REPOS_TO_CREATE ! 6)))"
    using files_fresh_Returned_README[OF fresh' reliable_run[OF fresh]]
    by (simp add: repoPath_def descriptor_names descriptor_targets path_join_names)
  ultimately show ?thesis
    using type fresh returned readme_differs[of "REPOS_TO_CREATE ! 6"] by simp
qed

text \<open>
  Claim C3. When something already exists at the target path of a descriptor,
  \<^verbatim>\<open>initializeRepo\<close> returns normally, leaves the file system as it is and issues no
  \<^verbatim>\<open>mkdir\<close>, no \<^verbatim>\<open>writeFile\<close> and no command: its whole effect is two console
  lines, the progress line and the skip notice. A call that returned has left its target
  in place, so a second call for the same descriptor is such a skip, whatever the
  environment then does.
\<close>

theorem existing_target_is_skipped:
  "(fs_access s (path_join BASE_DIR (name config)) \<longrightarrow>
      initializeRepo env config s =
        (Returned, s\<lparr>trace := trace s @ [ConsoleLog (creating_notice config), ConsoleLog skip_notice]\<rparr>))
   \<and> (initializeRepo env config s = (Returned, s1) \<longrightarrow>
      initializeRepo env' config s1 =
        (Returned, s1\<lparr>trace := trace s1 @ [ConsoleLog (creating_notice config), ConsoleLog skip_notice]\<rparr>))"
proof -
  have skip: "initializeRepo e config t =
      (Returned, t\<lparr>trace := trace t @ [ConsoleLog (creating_notice config), ConsoleLog skip_notice]\<rparr>)"
    if "fs_access t (repoPath config)" for e t
  proof -
    obtain out t' where run: "initializeRepo e config t = (out, t')"
      by (cases "initializeRepo e config t")
    from run_existing[OF that run] have "out = Returned"
      and "t' = t\<lparr>trace := trace t @ [ConsoleLog (creating_notice config), ConsoleLog skip_notice]\<rparr>"
      by (simp_all add: state_trace_eq)
    with run show ?thesis by simp
  qed
  show ?thesis
    using skip returned_target_exists unfolding repoPath_def by blast
qed

theorem existing_target_is_skipped_witness:
  "\<not> fs_access \<lparr>files = Map.empty, trace = []\<rparr> (path_join BASE_DIR (name (REPOS_TO_CREATE ! 2)))
   \<and> fst (initializeRepo (\<lambda>_. False) (REPOS_TO_CREATE ! 2) \<lparr>files = Map.empty, trace = []\<rparr>) = Returned
   \<and> fs_access (snd (initializeRepo (\<lambda>_. False) (REPOS_TO_CREATE ! 2) \<lparr>files = Map.empty, trace = []\<rparr>))
         (path_join BASE_DIR (name (REPOS_TO_CREATE ! 2)))
   \<and> issued (snd (initializeRepo (\<lambda>_. False) (REPOS_TO_CREATE ! 2) \<lparr>files = Map.empty, trace = []\<rparr>))
        (snd (initializeRepo (\<lambda>_. True) (REPOS_TO_CREATE ! 2)
           (snd (initializeRepo (\<lambda>_. False) (REPOS_TO_CREATE ! 2) \<lparr>files = Map.empty, trace = []\<rparr>))))
      = [ConsoleLog (creating_notice (REPOS_TO_CREATE ! 2)), ConsoleLog skip_notice]"
proof -
  let ?c = "REPOS_TO_CREATE ! 2"
  let ?s = "\<lparr>files = Map.empty, trace = []\<rparr>"
  let ?s1 = "snd (initializeRepo (\<lambda>_. False) ?c ?s)"
  have name: "name ?c = ''billing''"
    by (simp add: REPOS_TO_CREATE_def)
  have fresh: "\<not> fs_access ?s (path_join BASE_DIR (name ?c))"
    unfolding name by (simp add: fs_access_def path_join_def path_step_def BASE_DIR_def)
  then have "\<not> fs_access ?s (repoPath ?c)"
    by (simp add: repoPath_def)
  from run_fresh_all_succeed[OF this, of "\<lambda>_. False"]
  have first: "initializeRepo (\<lambda>_. False) ?c ?s = (Returned, ?s1)"
    by simp
  from existing_target_is_skipped[of ?s ?c "\<lambda>_. False" ?s1 "\<lambda>_. True"] first
  have third: "initializeRepo (\<lambda>_. True) ?c ?s1 =
        (Returned, ?s1\<lparr>trace := trace ?s1 @ [ConsoleLog (creating_notice ?c), ConsoleLog skip_notice]\<rparr>)"
    by blast
  have exists: "fs_access ?s1 (path_join BASE_DIR (name ?c))"
    using returned_target_exists[OF first] by (simp add: repoPath_def)
  from existing_target_is_skipped[of ?s1 ?c "\<lambda>_. True", THEN conjunct1, THEN mp, OF exists]
  have skipped: "issued ?s1 (snd (initializeRepo (\<lambda>_. True) ?c ?s1)) =
      [ConsoleLog (creating_notice ?c), ConsoleLog skip_notice]"
    by (simp add: issued_def)
  from first have "fst (initializeRepo (\<lambda>_. False) ?c ?s) = Returned"
    by (metis fst_conv)
  with fresh exists skipped third show ?thesis
    by simp
qed



text \<open>
  Claim C5. When the target does not exist and \<^verbatim>\<open>initializeRepo\<close> returns, the README
  on disk ends with the License heading, an empty line and the license line, which is the
  proprietary text for a private descriptor and MIT for a public one; and exactly one
  \<^verbatim>\<open>gh\<close> command has been run, whose visibility flag is \<^verbatim>\<open>--private\<close> for a private
  descriptor and \<^verbatim>\<open>--public\<close> for a public one.
\<close>

theorem visibility_propagation:
  assumes "\<not> fs_access s (path_join BASE_DIR (name config))"
      and "initializeRepo env config s = (Returned, s')"
  shows "(\<exists>text. files s' (path_join (path_join BASE_DIR (name config)) ''README.md'') = Some (File text) \<and>
            suffix (''## License'' @ nl @ nl @
                    (if isPrivate config then ''Proprietary - Cloudflare Studio Internal'' else ''MIT'') @ nl)
              text)
       \<and> filter (\<lambda>(cmd, cwd). startsWith cmd ''gh '') (commands (issued s s')) =
           [(''gh repo create cloudflare-studio/'' @ name config @ '' '' @
               (if isPrivate config then ''--private'' else ''--public'') @
               '' --description '' @ dq @ description config @ dq @ '' --push --source .'',
             path_join BASE_DIR (name config))]"
proof -
  from assms(1) have fresh: "\<not> fs_access s (repoPath config)"
    by (simp add: repoPath_def)
  have "commands (issued s s') =
      [(''git init'', repoPath config), (''git add .'', repoPath config),
       (commit_command config, repoPath config), (gh_command config, repoPath config)]"
    unfolding issued_fresh_Returned[OF fresh assms(2)]
    by (simp add: commands_append commands_Cons commands_plan commands_publish_effects)
  moreover have "\<not> startsWith ''git init'' ''gh ''" "\<not> startsWith ''git add .'' ''gh ''"
    "startsWith (gh_command config) ''gh ''" "\<not> startsWith (commit_command config) ''gh ''"
    by (simp_all add: startsWith_def gh_command_def commit_command_def)
  ultimately have "filter (\<lambda>(cmd, cwd). startsWith cmd ''gh '') (commands (issued s s')) =
      [(gh_command config, repoPath config)]"
    by simp
  with files_fresh_Returned_README[OF fresh assms(2)] readme_license[of config] show ?thesis
    by (simp add: gh_command_def repoPath_def)
qed

theorem visibility_propagation_witness:
  "\<not> fs_access empty_disk (path_join BASE_DIR (name (REPOS_TO_CREATE ! 2)))
   \<and> isPrivate (REPOS_TO_CREATE ! 2)
   \<and> fst (initializeRepo reliable (REPOS_TO_CREATE ! 2) empty_disk) = Returned
   \<and> (\<exists>text. files (snd (initializeRepo reliable (REPOS_TO_CREATE ! 2) empty_disk))
                 (BASE_DIR @ [''billing'', ''README.md'']) = Some (File text) \<and>
              suffix (''## License'' @ nl @ nl @ ''Proprietary - Cloudflare Studio Internal'' @ nl) text)
   \<and> filter (\<lambda>(cmd, cwd). startsWith cmd ''gh '')
        (commands (issued empty_disk (snd (initializeRepo reliable (REPOS_TO_CREATE ! 2) empty_disk)))) =
      [(''gh repo create cloudflare-studio/billing --private --description '' @ dq @
          [CHR 0xF0, CHR 0x9F, CHR 0x92, CHR 0xB3] @ '' Billing system with Stripe integration'' @ dq @
          '' --push --source .'',
        BASE_DIR @ [''billing''])]
   \<and> \<not> fs_access empty_disk (path_join BASE_DIR (name (REPOS_TO_CREATE ! 0)))
   \<and> \<not> isPrivate (REPOS_TO_CREATE ! 0)
   \<and> fst (initializeRepo reliable (REPOS_TO_CREATE ! 0) empty_disk) = Returned
   \<and> (\<exists>text. files (snd (initializeRepo reliable (REPOS_TO_CREATE ! 0) empty_disk))
                 (BASE_DIR @ [''claude-docs'', ''README.md'']) = Some (File text) \<and>
              suffix (''## License'' @ nl @ nl @ ''MIT'' @ nl) text)
   \<and> filter (\<lambda>(cmd, cwd). startsWith cmd ''gh '')
        (commands (issued empty_disk (snd (initializeRepo reliable (REPOS_TO_CREATE ! 0) empty_disk)))) =
      [(''gh repo create cloudflare-studio/claude-docs --public --description '' @ dq @
          [CHR 0xF0, CHR 0x9F, CHR 0xA4, CHR 0x96] @
          '' AI-first documentation system for Cloudflare Studio'' @ dq @ '' --push --source .'',
        BASE_DIR @ [''claude-docs''])]"
proof -
  have fresh2: "\<not> fs_access empty_disk (path_join BASE_DIR (name (REPOS_TO_CREATE ! 2)))"
    and fresh0: "\<not> fs_access empty_disk (path_join BASE_DIR (name (REPOS_TO_CREATE ! 0)))"
    by (simp_all add: descriptor_names descriptor_targets empty_disk_fresh)
  have fields:
    "description (REPOS_TO_CREATE ! 2) =
       [CHR 0xF0, CHR 0x9F, CHR 0x92, CHR 0xB3] @ '' Billing system with Stripe integration''"
    "isPrivate (REPOS_TO_CREATE ! 2)"
    "description (REPOS_TO_CREATE ! 0) =
       [CHR 0xF0, CHR 0x9F, CHR 0xA4, CHR 0x96] @ '' AI-first documentation system for Cloudflare Studio''"
    "\<not> isPrivate (REPOS_TO_CREATE ! 0)"
    by (simp_all add: REPOS_TO_CREATE_def)
  have returned:
    "fst (initializeRepo reliable (REPOS_TO_CREATE ! 2) empty_disk) = Returned"
    "fst (initializeRepo reliable (REPOS_TO_CREATE ! 0) empty_disk) = Returned"
    using reliable_run[OF fresh2] reliable_run[OF fresh0] by (metis fst_conv)+
  from visibility_propagation[OF fresh2 reliable_run[OF fresh2]]
    visibility_propagation[OF fresh0 reliable_run[OF fresh0]] fresh2 fresh0 returned
  show ?thesis
    by (simp add: fields descriptor_names descriptor_targets path_join_names)
qed



text \<open>
  Claim C7. Take any call of \<^verbatim>\<open>initializeRepo\<close> and any operation it issued that can
  fail and did fail. If the operation is the \<^verbatim>\<open>gh\<close> call, the call of
  \<^verbatim>\<open>initializeRepo\<close> returned normally and its last console line is the warning.
  Otherwise the operation is a \<^verbatim>\<open>mkdir\<close>, a \<^verbatim>\<open>writeFile\<close> or a \<^verbatim>\<open>git\<close> command in
  the target directory, and the call threw exactly this operation. Nothing is rolled back:
  every file whose write was issued and did not fail is on disk when the call ends. And
  in \<^verbatim>\<open>main\<close>, once the loop has reached the descriptor, a call that returns is followed
  by the remaining descriptors and the summary, while a call that throws ends
  \<^verbatim>\<open>main\<close> with that exception in the state the call left, without any further
  descriptor and without the summary.
\<close>

theorem failure_isolation:
  assumes "initializeRepo env config s = (out, s')"
  shows "(\<forall>x\<in>set (issued s s'). fallible x \<and> env x \<longrightarrow>
            (if x = ExecSync
                      (''gh repo create cloudflare-studio/'' @ name config @ '' '' @
                       (if isPrivate config then ''--private'' else ''--public'') @
                       '' --description '' @ dq @ description config @ dq @ '' --push --source .'')
                      (path_join BASE_DIR (name config))
             then out = Returned \<and> last (issued s s') = ConsoleLog warning_notice
             else out = Threw x \<and>
                  ((\<exists>p. x = Mkdir p) \<or> (\<exists>p text. x = WriteFile p text) \<or>
                   (\<exists>cmd. x = ExecSync cmd (path_join BASE_DIR (name config)) \<and>
                          startsWith cmd ''git ''))))
       \<and> (\<forall>p text. WriteFile p text \<in> set (issued s s') \<and> \<not> env (WriteFile p text) \<longrightarrow>
            files s' p \<noteq> None)
       \<and> (\<forall>pre rest s0.
            REPOS_TO_CREATE = pre @ config # rest \<and>
            block (console_log start_notice # map (initializeRepo env) pre) s0 = (Returned, s) \<longrightarrow>
            main env s0 =
              (case out of
                 Returned \<Rightarrow> block (map (initializeRepo env) rest @ map console_log summary_lines) s'
               | Threw e \<Rightarrow> (Threw e, s')))"
proof -
  have gh: "''gh repo create cloudflare-studio/'' @ name config @ '' '' @
      (if isPrivate config then ''--private'' else ''--public'') @
      '' --description '' @ dq @ description config @ dq @ '' --push --source .'' = gh_command config"
    by (simp only: gh_command_def)
  have target: "path_join BASE_DIR (name config) = repoPath config"
    by (simp only: repoPath_def)
  have first: "\<forall>x\<in>set (issued s s'). fallible x \<and> env x \<longrightarrow>
      (if x = ExecSync (gh_command config) (repoPath config)
       then out = Returned \<and> last (issued s s') = ConsoleLog warning_notice
       else out = Threw x \<and>
            ((\<exists>p. x = Mkdir p) \<or> (\<exists>p text. x = WriteFile p text) \<or>
             (\<exists>cmd. x = ExecSync cmd (repoPath config) \<and> startsWith cmd ''git '')))"
    using failing_operation[OF assms] by blast
  have second: "\<forall>p text. WriteFile p text \<in> set (issued s s') \<and> \<not> env (WriteFile p text) \<longrightarrow>
      files s' p \<noteq> None"
    using issued_writes_on_disk[OF assms] by blast
  have third: "\<forall>pre rest s0.
      REPOS_TO_CREATE = pre @ config # rest \<and>
      block (console_log start_notice # map (initializeRepo env) pre) s0 = (Returned, s) \<longrightarrow>
      main env s0 =
        (case out of
           Returned \<Rightarrow> block (map (initializeRepo env) rest @ map console_log summary_lines) s'
         | Threw e \<Rightarrow> (Threw e, s'))"
  proof (intro allI impI, elim conjE)
    fix pre rest s0
    assume "REPOS_TO_CREATE = pre @ config # rest"
      and "block (console_log start_notice # map (initializeRepo env) pre) s0 = (Returned, s)"
    from main_reaches[OF this] assms show "main env s0 =
        (case out of
           Returned \<Rightarrow> block (map (initializeRepo env) rest @ map console_log summary_lines) s'
         | Threw e \<Rightarrow> (Threw e, s'))"
      by simp
  qed
  show ?thesis
    unfolding gh target using first second third by (intro conjI)
qed

theorem failure_isolation_witness:
  "initializeRepo (\<lambda>e. e = gitignore_write) (REPOS_TO_CREATE ! 0) started =
     (Threw gitignore_write, snd (initializeRepo (\<lambda>e. e = gitignore_write) (REPOS_TO_CREATE ! 0) started))
   \<and> main (\<lambda>e. e = gitignore_write) empty_disk =
     (Threw gitignore_write, snd (initializeRepo (\<lambda>e. e = gitignore_write) (REPOS_TO_CREATE ! 0) started))
   \<and> initializeRepo (\<lambda>e. e = gh_call) (REPOS_TO_CREATE ! 0) started =
     (Returned, snd (initializeRepo (\<lambda>e. e = gh_call) (REPOS_TO_CREATE ! 0) started))
   \<and> gh_call \<in> set (issued started (snd (initializeRepo (\<lambda>e. e = gh_call) (REPOS_TO_CREATE ! 0) started)))
   \<and> last (issued started (snd (initializeRepo (\<lambda>e. e = gh_call) (REPOS_TO_CREATE ! 0) started))) =
     ConsoleLog warning_notice
   \<and> files (snd (initializeRepo (\<lambda>e. e = gh_call) (REPOS_TO_CREATE ! 0) started))
        (BASE_DIR @ [''claude-docs'', ''README.md'']) \<noteq> None
   \<and> main (\<lambda>e. e = gh_call) empty_disk =
     block (map (initializeRepo (\<lambda>e. e = gh_call)) (tl REPOS_TO_CREATE) @ map console_log summary_lines)
       (snd (initializeRepo (\<lambda>e. e = gh_call) (REPOS_TO_CREATE ! 0) started))"
proof -
  let ?c = "REPOS_TO_CREATE ! 0"
  let ?broken = "\<lambda>e. e = gitignore_write"
  let ?offline = "\<lambda>e. e = gh_call"
  let ?a = "initializeRepo ?broken ?c started"
  let ?b = "initializeRepo ?offline ?c started"
  have target: "path_join BASE_DIR (name ?c) = BASE_DIR @ [''claude-docs'']"
    using first_target by (simp add: repoPath_def)
  have gh: "ExecSync
      (''gh repo create cloudflare-studio/'' @ name ?c @ '' '' @
       (if isPrivate ?c then ''--private'' else ''--public'') @
       '' --description '' @ dq @ description ?c @ dq @ '' --push --source .'')
      (path_join BASE_DIR (name ?c)) = gh_call"
    unfolding target by (simp add: first_descriptor gh_call_def)
  \<comment> \<open>the write of the ignore file fails\<close>
  have "?a = (fst ?a, snd ?a)" by simp
  note a = failure_isolation[OF this, unfolded gh]
  have "fallible gitignore_write" and differ: "gitignore_write \<noteq> gh_call"
    by (simp_all add: fallible_def gitignore_write_def gh_call_def)
  then have "fallible gitignore_write \<and> gitignore_write = gitignore_write" by simp
  from a[THEN conjunct1, THEN bspec, OF gitignore_write_issued, THEN mp, OF this] differ
  have a1: "fst ?a = Threw gitignore_write" by simp
  then have a2: "?a = (Threw gitignore_write, snd ?a)"
    by (simp add: prod_eq_iff)
  from a[THEN conjunct2, THEN conjunct2, THEN spec, THEN spec, THEN spec, THEN mp,
      OF conjI[OF first_of_list main_started]] a1
  have a3: "main ?broken empty_disk = (Threw gitignore_write, snd ?a)"
    by simp
  \<comment> \<open>the call of gh fails\<close>
  have "?b = (fst ?b, snd ?b)" by simp
  note b = failure_isolation[OF this, unfolded gh]
  have ok: "\<forall>e\<in>set (plan ?c). fallible e \<longrightarrow> \<not> ?offline e"
    using gh_not_planned[of ?c "repoPath ?c"] by (auto simp: gh_call_eq)
  from run_fresh_all_succeed[OF started_fresh ok] have b1: "?b = (Returned, snd ?b)"
    by simp
  from issued_fresh_Returned[OF started_fresh b1]
  have b2: "gh_call \<in> set (issued started (snd ?b))"
    by (simp add: publish_effects_def run_command_def gh_call_eq)
  have "fallible gh_call \<and> gh_call = gh_call" by (simp add: fallible_def gh_call_def)
  from b[THEN conjunct1, THEN bspec, OF b2, THEN mp, OF this]
  have b3: "last (issued started (snd ?b)) = ConsoleLog warning_notice" by simp
  from issued_fresh_Returned[OF started_fresh b1] readme_write_planned
  have "WriteFile (BASE_DIR @ [''claude-docs'', ''README.md'']) (readme ?c) \<in> set (issued started (snd ?b))"
    by simp
  moreover have "WriteFile (BASE_DIR @ [''claude-docs'', ''README.md'']) (readme ?c) \<noteq> gh_call"
    by (simp add: gh_call_def)
  ultimately have b4: "files (snd ?b) (BASE_DIR @ [''claude-docs'', ''README.md'']) \<noteq> None"
    using b[THEN conjunct2, THEN conjunct1, THEN spec, THEN spec, THEN mp] by simp
  from b[THEN conjunct2, THEN conjunct2, THEN spec, THEN spec, THEN spec, THEN mp,
      OF conjI[OF first_of_list main_started]] arg_cong[OF b1, of fst]
  have b5: "main ?offline empty_disk =
      block (map (initializeRepo ?offline) (tl REPOS_TO_CREATE) @ map console_log summary_lines) (snd ?b)"
    by simp
  from a2 a3 b1 b2 b3 b4 b5 show ?thesis by (intro conjI)
qed

text \<open>
  Claim C8. Whenever \<^verbatim>\<open>main\<close> returns, that is, after all descriptors have been
  processed, the last lines of its console output are the two headings of the summary,
  the first followed by one name and description line for each descriptor of the list
  with \<^verbatim>\<open>isPrivate\<close> false, the second by one line for each descriptor with
  \<^verbatim>\<open>isPrivate\<close> true, in list order: two public and seven private descriptors. The
  lines are computed from the constant list alone, for every environment and every
  initial state.
\<close>

theorem summary_report:
  assumes "main env s = (Returned, s')"
  shows "(\<exists>earlier.
            trace s' =
              trace s @ earlier @
              [ConsoleLog (nl @ [CHR 0xE2, CHR 0x9C, CHR 0xA8] @ '' All repositories initialized!''),
               ConsoleLog (nl @ [CHR 0xF0, CHR 0x9F, CHR 0x93, CHR 0x8A] @ '' Repository Summary:''),
               ConsoleLog (nl @ ''Public (Open Source):'')] @
              map (\<lambda>r. ConsoleLog (''  - '' @ name r @ '': '' @ description r))
                (filter (\<lambda>r. \<not> isPrivate r) REPOS_TO_CREATE) @
              [ConsoleLog (nl @ ''Private (Business):'')] @
              map (\<lambda>r. ConsoleLog (''  - '' @ name r @ '': '' @ description r))
                (filter (\<lambda>r. isPrivate r) REPOS_TO_CREATE))
       \<and> map name (filter (\<lambda>r. \<not> isPrivate r) REPOS_TO_CREATE) = [''claude-docs'', ''.claude'']
       \<and> map name (filter (\<lambda>r. isPrivate r) REPOS_TO_CREATE) =
            [''billing'', ''analytics'', ''plugin-ai'', ''plugin-enterprise'', ''infrastructure'',
             ''runbooks'', ''monitoring'']"
  using main_Returned[OF assms] unfolding summary_lines_eq
  by (intro conjI public_private_names)

theorem summary_report_witness:
  "main (\<lambda>_. True) full_disk = (Returned, snd (main (\<lambda>_. True) full_disk))
   \<and> (\<exists>earlier.
        trace (snd (main (\<lambda>_. True) full_disk)) =
          earlier @
          [ConsoleLog (nl @ [CHR 0xE2, CHR 0x9C, CHR 0xA8] @ '' All repositories initialized!''),
           ConsoleLog (nl @ [CHR 0xF0, CHR 0x9F, CHR 0x93, CHR 0x8A] @ '' Repository Summary:''),
           ConsoleLog (nl @ ''Public (Open Source):''),
           ConsoleLog (''  - claude-docs: '' @ [CHR 0xF0, CHR 0x9F, CHR 0xA4, CHR 0x96] @
                       '' AI-first documentation system for Cloudflare Studio''),
           ConsoleLog (''  - .claude: '' @ [CHR 0xF0, CHR 0x9F, CHR 0xA7, CHR 0xA0] @
                       '' Organization AI brain - Multi-repo Claude context management''),
           ConsoleLog (nl @ ''Private (Business):''),
           ConsoleLog (''  - billing: '' @ [CHR 0xF0, CHR 0x9F, CHR 0x92, CHR 0xB3] @
                       '' Billing system with Stripe integration''),
           ConsoleLog (''  - analytics: '' @ [CHR 0xF0, CHR 0x9F, CHR 0x93, CHR 0x8A] @
                       '' Usage analytics and metrics tracking''),
           ConsoleLog (''  - plugin-ai: '' @ [CHR 0xF0, CHR 0x9F, CHR 0xA4, CHR 0x96] @
                       '' AI-powered automation plugin ($99/month)''),
           ConsoleLog (''  - plugin-enterprise: '' @ [CHR 0xF0, CHR 0x9F, CHR 0x8F, CHR 0xA2] @
                       '' Enterprise features plugin (custom pricing)''),
           ConsoleLog (''  - infrastructure: '' @
                       [CHR 0xF0, CHR 0x9F, CHR 0x8F, CHR 0x97, CHR 0xEF, CHR 0xB8, CHR 0x8F] @
                       '' Our own infrastructure managed by cfstudio''),
           ConsoleLog (''  - runbooks: '' @ [CHR 0xF0, CHR 0x9F, CHR 0x93, CHR 0x9A] @
                       '' Operational runbooks and workflows''),
           ConsoleLog (''  - monitoring: '' @ [CHR 0xF0, CHR 0x9F, CHR 0x93, CHR 0xA1] @
                       '' Monitoring and alerting configuration'')])"
proof -
  note run = main_full_disk[of "\<lambda>_. True"]
  have "trace full_disk = []"
    by (simp add: full_disk_def)
  with summary_report[OF run, THEN conjunct1] run show ?thesis
    by (simp add: REPOS_TO_CREATE_def)
qed





end
